theory Spec2Isabelle
  imports Main
begin

section \<open>The Fastly service resource: data model\<close>

text \<open>
  The update function of the Fastly service resource reads a \<open>schema.ResourceData\<close>: the
  previously applied state and the newly desired configuration of one service. Every
  sub-resource collection is a \<open>schema.Set\<close> whose elements are read through the resource
  schema, so each element carries exactly the fields its schema declares, with the declared
  types. One record type per collection follows the schema declaration; field names are the
  schema keys, prefixed by the collection so that they stay distinct.
\<close>

record domain =
  domain_name :: string
  domain_comment :: string

record condition =
  condition_name :: string
  condition_statement :: string
  condition_priority :: int
  condition_type :: string

record healthcheck =
  healthcheck_name :: string
  healthcheck_host :: string
  healthcheck_path :: string
  healthcheck_check_interval :: int
  healthcheck_expected_response :: int
  healthcheck_http_version :: string
  healthcheck_initial :: int
  healthcheck_method :: string
  healthcheck_threshold :: int
  healthcheck_timeout :: int
  healthcheck_window :: int

record backend =
  backend_name :: string
  backend_address :: string
  backend_auto_loadbalance :: bool
  backend_between_bytes_timeout :: int
  backend_connect_timeout :: int
  backend_error_threshold :: int
  backend_first_byte_timeout :: int
  backend_healthcheck :: string
  backend_max_conn :: int
  backend_port :: int
  backend_request_condition :: string
  backend_shield :: string
  backend_ssl_check_cert :: bool
  backend_ssl_hostname :: string
  backend_ssl_cert_hostname :: string
  backend_ssl_sni_hostname :: string
  backend_weight :: int

record cache_setting =
  cache_setting_name :: string
  cache_setting_action :: string
  cache_setting_cache_condition :: string
  cache_setting_stale_ttl :: int
  cache_setting_ttl :: int

record gzip =
  gzip_name :: string
  gzip_content_types :: "string list"
  gzip_extensions :: "string list"
  gzip_cache_condition :: string

record header =
  header_name :: string
  header_action :: string
  header_type :: string
  header_destination :: string
  header_ignore_if_set :: bool
  header_source :: string
  header_regex :: string
  header_substitution :: string
  header_priority :: int
  header_request_condition :: string
  header_cache_condition :: string
  header_response_condition :: string

record s3logging =
  s3_name :: string
  s3_bucket_name :: string
  s3_access_key :: string
  s3_secret_key :: string
  s3_path :: string
  s3_domain :: string
  s3_gzip_level :: int
  s3_period :: int
  s3_format :: string
  s3_format_version :: int
  s3_timestamp_format :: string
  s3_response_condition :: string

record papertrail =
  papertrail_name :: string
  papertrail_address :: string
  papertrail_port :: int
  papertrail_format :: string
  papertrail_response_condition :: string

record sumologic =
  sumologic_name :: string
  sumologic_url :: string
  sumologic_format :: string
  sumologic_format_version :: int
  sumologic_response_condition :: string
  sumologic_message_type :: string

record gcslogging =
  gcs_name :: string
  gcs_email :: string
  gcs_bucket_name :: string
  gcs_secret_key :: string
  gcs_path :: string
  gcs_gzip_level :: int
  gcs_period :: int
  gcs_format :: string
  gcs_timestamp_format :: string
  gcs_response_condition :: string

record response_object =
  response_object_name :: string
  response_object_status :: int
  response_object_response :: string
  response_object_content :: string
  response_object_content_type :: string
  response_object_request_condition :: string
  response_object_cache_condition :: string

record request_setting =
  request_setting_name :: string
  request_setting_request_condition :: string
  request_setting_max_stale_age :: int
  request_setting_force_miss :: bool
  request_setting_force_ssl :: bool
  request_setting_action :: string
  request_setting_bypass_busy_wait :: bool
  request_setting_hash_keys :: string
  request_setting_xff :: string
  request_setting_timer_support :: bool
  request_setting_geo_headers :: bool
  request_setting_default_host :: string

record vcl =
  vcl_name :: string
  vcl_content :: string
  vcl_main :: bool
text \<open>
  The top-level attributes of the schema. A \<open>schema.Set\<close> is represented by the list that
  its \<open>List()\<close> method returns: the elements in the set's own iteration order.
\<close>

record attrs =
  name :: string
  default_host :: string
  default_ttl :: int
  force_destroy :: bool
  domain :: "domain list"
  condition :: "condition list"
  healthcheck :: "healthcheck list"
  backend :: "backend list"
  cache_setting :: "cache_setting list"
  gzip :: "gzip list"
  header :: "header list"
  s3logging :: "s3logging list"
  papertrail :: "papertrail list"
  sumologic :: "sumologic list"
  gcslogging :: "gcslogging list"
  response_object :: "response_object list"
  request_setting :: "request_setting list"
  vcl :: "vcl list"

text \<open>
  \<open>ResourceData\<close>: the service id (\<open>d.Id()\<close>), the computed attribute \<open>active_version\<close>,
  and for every other attribute the pair that \<open>d.GetChange\<close> returns: the value in the prior
  state and the value in the desired configuration. \<open>d.Get\<close> reads the desired value.
\<close>

record ResourceData =
  ID :: string
  active_version :: int
  old_state :: attrs
  new_state :: attrs

section \<open>Calls to the configuration backend\<close>

datatype kind =
  Condition | Domain | Healthcheck | Backend | Header | Gzip | S3logging | Papertrail
  | Sumologic | Gcslogging | ResponseObject | RequestSetting | VCL | CacheSetting

datatype item =
  ConditionItem condition
  | DomainItem domain
  | HealthcheckItem healthcheck
  | BackendItem backend
  | HeaderItem header
  | GzipItem gzip
  | S3Item s3logging
  | PapertrailItem papertrail
  | SumologicItem sumologic
  | GcsItem gcslogging
  | ResponseObjectItem response_object
  | RequestSettingItem request_setting
  | VCLItem vcl
  | CacheSettingItem cache_setting

text \<open>
  One event per call that the update function issues on the client connection, in the order
  of issue, and one for the blocking \<open>time.Sleep\<close>. Every call carries the service id; the
  versioned calls carry the version number. \<open>Delete k\<close> stands for the client's
  \<open>DeleteCondition\<close>, \<open>DeleteDomain\<close>, ... and carries the \<open>Name\<close> of its input;
  \<open>Create\<close> stands for \<open>CreateCondition\<close>, \<open>CreateDomain\<close>, ... and carries the
  desired-state element from which the input of the call is built: the input is a function of
  the service id, the version and that element (the fields are copied, integers are
  converted to unsigned ones, a condition's statement is trimmed, the content types and
  extensions of a gzip rule are joined). \<open>UpdateSettings\<close> carries the desired
  \<open>default_ttl\<close> and \<open>default_host\<close>, from which its input is built in the same way.
  \<open>Sleep n\<close> is \<open>time.Sleep\<close> for \<open>n\<close> seconds.
\<close>

datatype event =
  UpdateService string string
  | CloneVersion string int
  | Sleep nat
  | UpdateSettings string int int string
  | Delete kind string int string
  | Create string int item
  | ActivateVCL string int string
  | ValidateVersion string int
  | ActivateVersion string int

text \<open>
  The errors the update function returns. An error of the client (\<open>ClientError\<close>), of an
  input builder (\<open>BuildError\<close>) or of the read function (\<open>ReadError\<close>) is returned as it
  is; the others are built by the function itself:
  \<^item> \<open>VCLNoMain\<close>: "if you include VCL configurations, one of them should have main = true";
  \<^item> \<open>VCLManyMain\<close>: "you cannot have more than one VCL configuration with main = true";
  \<^item> \<open>NoS3Key k s\<close>: "[ERR] No k found for S3 Log stream setup for Service (s)";
  \<^item> \<open>CheckingValidation e\<close>: "[ERR] Error checking validation: e";
  \<^item> \<open>InvalidConfiguration s m\<close>: "[ERR] Invalid configuration for Fastly Service (s): m";
  \<^item> \<open>ActivatingVersion v e\<close>: "[ERR] Error activating version (v): e".
\<close>

datatype error =
  VCLNoMain
  | VCLManyMain
  | ClientError string
  | BuildError string
  | NoS3Key string string
  | CheckingValidation string
  | InvalidConfiguration string string
  | ActivatingVersion int string
  | ReadError string

text \<open>
  What the update function uses and the sources do not define. The client connection
  (\<open>gofastly.Client\<close>) is the remote backend: \<open>conn_error h c\<close> is the error, if any, with
  which the call \<open>c\<close> returns after the earlier events \<open>h\<close>; \<open>clone_number h\<close> is the
  \<open>Number\<close> of the version a successful \<open>CloneVersion\<close> returns; \<open>validate_result h\<close> is the
  pair \<open>(valid, msg)\<close> of a \<open>ValidateVersion\<close> that returns without error. The three input
  builders \<open>buildHeader\<close>, \<open>buildRequestSetting\<close> and \<open>buildCacheSetting\<close> either
  reject an element with an error or produce the input of the create call: \<open>buildHeader x\<close>
  is the error, if any. The read function \<open>resourceServiceV1Read\<close> refreshes the resource
  data from the backend at the end of an update and may return an error; its own calls are
  not recorded.
\<close>

record externals =
  conn_error :: "event list \<Rightarrow> event \<Rightarrow> string option"
  clone_number :: "event list \<Rightarrow> int"
  validate_result :: "event list \<Rightarrow> bool \<times> string"
  buildHeader :: "header \<Rightarrow> string option"
  buildRequestSetting :: "request_setting \<Rightarrow> string option"
  buildCacheSetting :: "cache_setting \<Rightarrow> string option"
  resourceServiceV1Read :: "ResourceData \<Rightarrow> event list \<Rightarrow> string option \<times> ResourceData"

section \<open>Sequencing of calls\<close>

text \<open>
  The update function is straight-line code that issues calls one after another and returns
  at the first error. A step takes the events issued so far and returns either the error
  with which the function returns or a value, together with the events extended by those of
  the step.
\<close>

type_synonym 'a step = "event list \<Rightarrow> (error + 'a) \<times> event list"

definition returnM :: "'a \<Rightarrow> 'a step" where
  "returnM x = (\<lambda>h. (Inr x, h))"

definition failM :: "error \<Rightarrow> 'a step" where
  "failM e = (\<lambda>h. (Inl e, h))"

definition bindM :: "'a step \<Rightarrow> ('a \<Rightarrow> 'b step) \<Rightarrow> 'b step" where
  "bindM m f = (\<lambda>h. case m h of (Inl e, h') \<Rightarrow> (Inl e, h') | (Inr x, h') \<Rightarrow> f x h')"

text \<open>A call on the connection: the event is recorded, the backend's answer is returned.\<close>

definition callM :: "externals \<Rightarrow> event \<Rightarrow> (string option) step" where
  "callM ext c = (\<lambda>h. (Inr (conn_error ext h c), h @ [c]))"

text \<open>The common pattern \<open>err := conn.Call(...); if err != nil { return err }\<close>.\<close>

definition checked :: "externals \<Rightarrow> event \<Rightarrow> unit step" where
  "checked ext c =
     bindM (callM ext c) (\<lambda>r. case r of Some e \<Rightarrow> failM (ClientError e) | None \<Rightarrow> returnM ())"

text \<open>\<open>for _, x := range xs { ... }\<close> with a body that may return an error.\<close>

fun forM :: "('a \<Rightarrow> unit step) \<Rightarrow> 'a list \<Rightarrow> unit step" where
  "forM f [] = returnM ()"
| "forM f (x # xs) = bindM (f x) (\<lambda>_. forM f xs)"

text \<open>Consecutive blocks of the function, each run only if the ones before returned no error.\<close>

fun seqM :: "unit step list \<Rightarrow> unit step" where
  "seqM [] = returnM ()"
| "seqM (m # ms) = bindM m (\<lambda>_. seqM ms)"

section \<open>Differences of sets\<close>

text \<open>
  Modelled from the spec: \<open>schema.Set.Difference\<close> and \<open>schema.Set.List\<close> of the Terraform
  schema helper, which are not part of the sources. \<open>Difference a b\<close> has the elements of
  \<open>a\<close> that are not in \<open>b\<close> under equality of all fields, in the iteration order of \<open>a\<close>.
\<close>

definition Difference :: "'a list \<Rightarrow> 'a list \<Rightarrow> 'a list" where
  "Difference a b = filter (\<lambda>x. x \<notin> set b) a"

text \<open>
  \<open>d.HasChange(k)\<close> for a collection \<open>k\<close>: the prior and the desired set differ as sets.
\<close>

definition HasChangeSet :: "'a list \<Rightarrow> 'a list \<Rightarrow> bool" where
  "HasChangeSet os ns = (set os \<noteq> set ns)"

section \<open>Validation of the VCL collection\<close>

text \<open>
  \<open>validateVCLs\<close>: \<open>d.GetOk("vcl")\<close> reports a set as present when it is not empty. The
  loop counts the elements with \<open>main = true\<close> and the others.
\<close>

fun countVCLs :: "vcl list \<Rightarrow> nat \<times> nat \<Rightarrow> nat \<times> nat" where
  "countVCLs [] (numberOfMainVCLs, numberOfIncludeVCLs) = (numberOfMainVCLs, numberOfIncludeVCLs)"
| "countVCLs (v # vs) (numberOfMainVCLs, numberOfIncludeVCLs) =
     (if vcl_main v then countVCLs vs (numberOfMainVCLs + 1, numberOfIncludeVCLs)
      else countVCLs vs (numberOfMainVCLs, numberOfIncludeVCLs + 1))"

definition validateVCLs :: "ResourceData \<Rightarrow> error option" where
  "validateVCLs d =
     (let vcls = vcl (new_state d) in
      if vcls = [] then None
      else (case countVCLs vcls (0, 0) of (numberOfMainVCLs, numberOfIncludeVCLs) \<Rightarrow>
        if numberOfMainVCLs = 0 \<and> numberOfIncludeVCLs > 0 then Some VCLNoMain
        else if numberOfMainVCLs > 1 then Some VCLManyMain
        else None))"

section \<open>The update function\<close>

text \<open>Renaming the service needs no version: \<open>if d.HasChange("name") { conn.UpdateService }\<close>.\<close>

definition updateName :: "externals \<Rightarrow> ResourceData \<Rightarrow> unit step" where
  "updateName ext d =
     (if name (old_state d) \<noteq> name (new_state d)
      then checked ext (UpdateService (ID d) (name (new_state d)))
      else returnM ())"

text \<open>
  The loop over the attribute names that decides whether a new version is needed. The list
  in the source has the fourteen names below, in this order.
\<close>

definition needsChange :: "ResourceData \<Rightarrow> bool" where
  "needsChange d = (let os = old_state d; ns = new_state d in
     HasChangeSet (domain os) (domain ns)
     \<or> HasChangeSet (backend os) (backend ns)
     \<or> default_host os \<noteq> default_host ns
     \<or> default_ttl os \<noteq> default_ttl ns
     \<or> HasChangeSet (header os) (header ns)
     \<or> HasChangeSet (gzip os) (gzip ns)
     \<or> HasChangeSet (healthcheck os) (healthcheck ns)
     \<or> HasChangeSet (s3logging os) (s3logging ns)
     \<or> HasChangeSet (papertrail os) (papertrail ns)
     \<or> HasChangeSet (response_object os) (response_object ns)
     \<or> HasChangeSet (condition os) (condition ns)
     \<or> HasChangeSet (request_setting os) (request_setting ns)
     \<or> HasChangeSet (cache_setting os) (cache_setting ns)
     \<or> HasChangeSet (vcl os) (vcl ns))"

text \<open>
  \<open>conn.CloneVersion\<close>: on success the step yields the \<open>Number\<close> of the new version.
  \<open>time.Sleep\<close> always returns.
\<close>

definition cloneVersion :: "externals \<Rightarrow> string \<Rightarrow> int \<Rightarrow> int step" where
  "cloneVersion ext s v = (\<lambda>h.
     case conn_error ext h (CloneVersion s v) of
       Some e \<Rightarrow> (Inl (ClientError e), h @ [CloneVersion s v])
     | None \<Rightarrow> (Inr (clone_number ext h), h @ [CloneVersion s v]))"

definition sleep :: "nat \<Rightarrow> unit step" where
  "sleep n = (\<lambda>h. (Inr (), h @ [Sleep n]))"

text \<open>
  The version to modify: version 1 of a service that was just created, otherwise a clone of
  the active version, followed by a sleep of seven seconds.
\<close>

definition latestVersion :: "externals \<Rightarrow> ResourceData \<Rightarrow> int step" where
  "latestVersion ext d =
     (if active_version d = 0 then returnM 1
      else bindM (cloneVersion ext (ID d) (active_version d)) (\<lambda>newVersion.
           bindM (sleep 7) (\<lambda>_. returnM newVersion)))"

text \<open>
  The general settings: \<open>DefaultTTL\<close> is always the desired value; \<open>DefaultHost\<close> is set
  from the desired value when \<open>d.GetOk\<close> finds it non-empty and is the empty string
  otherwise, which is the desired value again.
\<close>

definition updateSettings :: "externals \<Rightarrow> ResourceData \<Rightarrow> int \<Rightarrow> unit step" where
  "updateSettings ext d v =
     (if default_host (old_state d) \<noteq> default_host (new_state d)
         \<or> default_ttl (old_state d) \<noteq> default_ttl (new_state d)
      then checked ext (UpdateSettings (ID d) v (default_ttl (new_state d)) (default_host (new_state d)))
      else returnM ())"

text \<open>
  The block the function repeats for every collection: if the collection has changed, take
  the two differences, delete every element of \<open>remove\<close> by its name, then create every
  element of \<open>add\<close>. The blocks differ in the kind, in the field that holds the name and in
  the body of the second loop.
\<close>

definition updateSet ::
  "externals \<Rightarrow> string \<Rightarrow> int \<Rightarrow> kind \<Rightarrow> ('a \<Rightarrow> string) \<Rightarrow> ('a \<Rightarrow> unit step)
    \<Rightarrow> 'a list \<Rightarrow> 'a list \<Rightarrow> unit step" where
  "updateSet ext s v k nm post os ns =
     (if HasChangeSet os ns then
        (let remove = Difference os ns; add = Difference ns os in
         bindM (forM (\<lambda>x. checked ext (Delete k s v (nm x))) remove) (\<lambda>_. forM post add))
      else returnM ())"

text \<open>The body of the second loop for the collections whose input is built in place.\<close>

definition create :: "externals \<Rightarrow> string \<Rightarrow> int \<Rightarrow> item \<Rightarrow> unit step" where
  "create ext s v x = checked ext (Create s v x)"

text \<open>
  Headers, request settings and cache settings go through their input builder; an error of
  the builder is returned before the create call.
\<close>

definition createBuilt ::
  "externals \<Rightarrow> string \<Rightarrow> int \<Rightarrow> ('a \<Rightarrow> string option) \<Rightarrow> ('a \<Rightarrow> item) \<Rightarrow> 'a \<Rightarrow> unit step" where
  "createBuilt ext s v build wrap x =
     (case build x of
        Some e \<Rightarrow> failM (BuildError e)
      | None \<Rightarrow> checked ext (Create s v (wrap x)))"

text \<open>
  S3 logging: the loop over \<open>["s3_access_key", "s3_secret_key"]\<close> returns an error for the
  first of the two keys that is empty.
\<close>

definition createS3 :: "externals \<Rightarrow> string \<Rightarrow> int \<Rightarrow> s3logging \<Rightarrow> unit step" where
  "createS3 ext s v sf =
     (if s3_access_key sf = [] then failM (NoS3Key ''s3_access_key'' s)
      else if s3_secret_key sf = [] then failM (NoS3Key ''s3_secret_key'' s)
      else checked ext (Create s v (S3Item sf)))"

text \<open>VCL: a created element with \<open>main = true\<close> is activated right after its creation.\<close>

definition createVCL :: "externals \<Rightarrow> string \<Rightarrow> int \<Rightarrow> vcl \<Rightarrow> unit step" where
  "createVCL ext s v df =
     bindM (checked ext (Create s v (VCLItem df))) (\<lambda>_.
       if vcl_main df then checked ext (ActivateVCL s v (vcl_name df)) else returnM ())"

text \<open>The blocks of the function between the settings and the validation, in source order.\<close>

definition updateSets :: "externals \<Rightarrow> ResourceData \<Rightarrow> int \<Rightarrow> unit step list" where
  "updateSets ext d v = (let s = ID d; os = old_state d; ns = new_state d in
     [updateSet ext s v Condition condition_name (\<lambda>x. create ext s v (ConditionItem x))
        (condition os) (condition ns),
      updateSet ext s v Domain domain_name (\<lambda>x. create ext s v (DomainItem x))
        (domain os) (domain ns),
      updateSet ext s v Healthcheck healthcheck_name (\<lambda>x. create ext s v (HealthcheckItem x))
        (healthcheck os) (healthcheck ns),
      updateSet ext s v Backend backend_name (\<lambda>x. create ext s v (BackendItem x))
        (backend os) (backend ns),
      updateSet ext s v Header header_name (createBuilt ext s v (buildHeader ext) HeaderItem)
        (header os) (header ns),
      updateSet ext s v Gzip gzip_name (\<lambda>x. create ext s v (GzipItem x))
        (gzip os) (gzip ns),
      updateSet ext s v S3logging s3_name (createS3 ext s v)
        (s3logging os) (s3logging ns),
      updateSet ext s v Papertrail papertrail_name (\<lambda>x. create ext s v (PapertrailItem x))
        (papertrail os) (papertrail ns),
      updateSet ext s v Sumologic sumologic_name (\<lambda>x. create ext s v (SumologicItem x))
        (sumologic os) (sumologic ns),
      updateSet ext s v Gcslogging gcs_name (\<lambda>x. create ext s v (GcsItem x))
        (gcslogging os) (gcslogging ns),
      updateSet ext s v ResponseObject response_object_name
        (\<lambda>x. create ext s v (ResponseObjectItem x))
        (response_object os) (response_object ns),
      updateSet ext s v RequestSetting request_setting_name
        (createBuilt ext s v (buildRequestSetting ext) RequestSettingItem)
        (request_setting os) (request_setting ns),
      updateSet ext s v VCL vcl_name (createVCL ext s v)
        (vcl os) (vcl ns),
      updateSet ext s v CacheSetting cache_setting_name
        (createBuilt ext s v (buildCacheSetting ext) CacheSettingItem)
        (cache_setting os) (cache_setting ns)])"

text \<open>
  What the function does to the version once it has one: the settings block, then the
  collection blocks.
\<close>

definition updateVersion :: "externals \<Rightarrow> ResourceData \<Rightarrow> int \<Rightarrow> unit step" where
  "updateVersion ext d v = bindM (updateSettings ext d v) (\<lambda>_. seqM (updateSets ext d v))"

text \<open>
  \<open>conn.ValidateVersion\<close> returns \<open>(valid, msg, err)\<close>; \<open>conn.ActivateVersion\<close> returns an
  error or not.
\<close>

definition validateVersion :: "externals \<Rightarrow> string \<Rightarrow> int \<Rightarrow> unit step" where
  "validateVersion ext s v = (\<lambda>h.
     case conn_error ext h (ValidateVersion s v) of
       Some e \<Rightarrow> (Inl (CheckingValidation e), h @ [ValidateVersion s v])
     | None \<Rightarrow>
         (case validate_result ext h of (valid, msg) \<Rightarrow>
            if \<not> valid then (Inl (InvalidConfiguration s msg), h @ [ValidateVersion s v])
            else (Inr (), h @ [ValidateVersion s v])))"

definition activateVersion :: "externals \<Rightarrow> string \<Rightarrow> int \<Rightarrow> unit step" where
  "activateVersion ext s v =
     bindM (callM ext (ActivateVersion s v))
       (\<lambda>r. case r of Some e \<Rightarrow> failM (ActivatingVersion v e) | None \<Rightarrow> returnM ())"

text \<open>
  The function up to its last statement: the rename, then, if a new version is needed, the
  version, the settings, the collections, the validation, the activation and
  \<open>d.Set("active_version", latestVersion)\<close>. The result is the resource data at that point.
\<close>

definition updateBody :: "externals \<Rightarrow> ResourceData \<Rightarrow> ResourceData step" where
  "updateBody ext d =
     bindM (updateName ext d) (\<lambda>_.
       if needsChange d then
         bindM (latestVersion ext d) (\<lambda>v.
         bindM (updateVersion ext d v) (\<lambda>_.
         bindM (validateVersion ext (ID d) v) (\<lambda>_.
         bindM (activateVersion ext (ID d) v) (\<lambda>_.
         returnM (d\<lparr>active_version := v\<rparr>)))))
       else returnM d)"

text \<open>
  \<open>resourceServiceV1Update\<close>: the error returned (if any), the resource data when the
  function returns, and the events it issued. The VCL validation comes before the connection
  is touched; an error return leaves the resource data as it was; the last statement hands
  over to the read function.
\<close>

definition resourceServiceV1Update ::
  "externals \<Rightarrow> ResourceData \<Rightarrow> error option \<times> ResourceData \<times> event list" where
  "resourceServiceV1Update ext d =
     (case validateVCLs d of
        Some e \<Rightarrow> (Some e, d, [])
      | None \<Rightarrow>
          (case updateBody ext d [] of
             (Inl e, h) \<Rightarrow> (Some e, d, h)
           | (Inr d', h) \<Rightarrow>
               (case resourceServiceV1Read ext d' h of
                  (r, d'') \<Rightarrow> (map_option ReadError r, d'', h))))"

section \<open>Sample configurations\<close>

text \<open>
  A backend that accepts every call, answers \<open>CloneVersion\<close> with version 4 and validates
  every version; builders that accept every element; a read function that changes nothing.
\<close>

definition accepting :: externals where
  "accepting =
     \<lparr>conn_error = (\<lambda>h c. None), clone_number = (\<lambda>h. 4), validate_result = (\<lambda>h. (True, [])),
      buildHeader = (\<lambda>x. None), buildRequestSetting = (\<lambda>x. None),
      buildCacheSetting = (\<lambda>x. None), resourceServiceV1Read = (\<lambda>d h. (None, d))\<rparr>"

text \<open>The same backend, except that it reports every version as invalid.\<close>

definition rejecting :: externals where
  "rejecting = accepting\<lparr>validate_result := (\<lambda>h. (False, ''Syntax error''))\<rparr>"

text \<open>The same backend, except that every \<open>CloneVersion\<close> call fails.\<close>

definition unclonable :: externals where
  "unclonable = accepting\<lparr>conn_error :=
     (\<lambda>h c. case c of CloneVersion s v \<Rightarrow> Some ''clone failed'' | _ \<Rightarrow> None)\<rparr>"

definition domain_www :: domain where
  "domain_www = \<lparr>domain_name = ''www.example.com'', domain_comment = []\<rparr>"

definition no_attrs :: attrs where
  "no_attrs =
     \<lparr>name = ''www'', default_host = [], default_ttl = 3600, force_destroy = False,
      domain = [domain_www], condition = [], healthcheck = [], backend = [],
      cache_setting = [],
      gzip = [], header = [], s3logging = [], papertrail = [], sumologic = [],
      gcslogging = [], response_object = [], request_setting = [], vcl = []\<rparr>"

text \<open>A service with one domain whose active version is 3, with nothing to change.\<close>

definition service3 :: ResourceData where
  "service3 = \<lparr>ID = ''SU1Z0isxPaozGVKXdv0eY'', active_version = 3,
     old_state = no_attrs, new_state = no_attrs\<rparr>"

definition condition_X :: condition where
  "condition_X =
     \<lparr>condition_name = ''X'', condition_statement = ''req.url.ext == gif'',
      condition_priority = 10, condition_type = ''REQUEST''\<rparr>"

definition backend_b1 :: backend where
  "backend_b1 =
     \<lparr>backend_name = ''b1'', backend_address = ''1.2.3.4'', backend_auto_loadbalance = True,
      backend_between_bytes_timeout = 10000, backend_connect_timeout = 1000,
      backend_error_threshold = 0, backend_first_byte_timeout = 15000,
      backend_healthcheck = [], backend_max_conn = 200, backend_port = 80,
      backend_request_condition = ''X'', backend_shield = [], backend_ssl_check_cert = True,
      backend_ssl_hostname = [], backend_ssl_cert_hostname = [],
      backend_ssl_sni_hostname = [], backend_weight = 100\<rparr>"

definition vcl_A :: vcl where
  "vcl_A = \<lparr>vcl_name = ''A'', vcl_content = ''sub vcl_recv { }'', vcl_main = True\<rparr>"

definition vcl_B :: vcl where
  "vcl_B = \<lparr>vcl_name = ''B'', vcl_content = ''sub vcl_hit { }'', vcl_main = False\<rparr>"

definition s3_nokey :: s3logging where
  "s3_nokey =
     \<lparr>s3_name = ''logs'', s3_bucket_name = ''bucket'', s3_access_key = [],
      s3_secret_key = ''secret'', s3_path = [], s3_domain = [], s3_gzip_level = 0,
      s3_period = 3600, s3_format = ''%h %l %u %t %r %>s'', s3_format_version = 1,
      s3_timestamp_format = [], s3_response_condition = []\<rparr>"

definition sumologic_s1 :: sumologic where
  "sumologic_s1 =
     \<lparr>sumologic_name = ''sumo'', sumologic_url = ''https://collectors.example.com/x'',
      sumologic_format = ''%h %l %u %t %r %>s'', sumologic_format_version = 1,
      sumologic_response_condition = [], sumologic_message_type = ''classic''\<rparr>"

text \<open>Only the Sumologic collection changes: one endpoint is added.\<close>

definition service3_sumologic :: ResourceData where
  "service3_sumologic = service3\<lparr>new_state := no_attrs\<lparr>sumologic := [sumologic_s1]\<rparr>\<rparr>"

text \<open>A condition is added together with an S3 endpoint that has no access key.\<close>

definition service3_s3_nokey :: ResourceData where
  "service3_s3_nokey =
     service3\<lparr>new_state := no_attrs\<lparr>condition := [condition_X], s3logging := [s3_nokey]\<rparr>\<rparr>"

text \<open>A condition named X is added together with a backend that refers to it.\<close>

definition service3_backend :: ResourceData where
  "service3_backend =
     service3\<lparr>new_state := no_attrs\<lparr>condition := [condition_X], backend := [backend_b1]\<rparr>\<rparr>"

text \<open>The VCL collection goes from the main VCL alone to the main VCL and an include.\<close>

definition service3_vcl :: ResourceData where
  "service3_vcl = service3\<lparr>old_state := no_attrs\<lparr>vcl := [vcl_A]\<rparr>,
     new_state := no_attrs\<lparr>vcl := [vcl_A, vcl_B]\<rparr>\<rparr>"

text \<open>A new service (no active version yet) that gets its domain and its main VCL.\<close>

definition service0_vcl :: ResourceData where
  "service0_vcl = service3\<lparr>active_version := 0, old_state := no_attrs\<lparr>domain := []\<rparr>,
     new_state := no_attrs\<lparr>vcl := [vcl_A]\<rparr>\<rparr>"

text \<open>A single VCL, which is not main.\<close>

definition service3_nomain :: ResourceData where
  "service3_nomain = service3\<lparr>new_state := no_attrs\<lparr>vcl := [vcl_B]\<rparr>\<rparr>"

text \<open>
  Builders that reject every element, with a backend that accepts every call; and a state
  in which a condition, a header, a request setting and a cache setting are added.
\<close>

definition picky :: externals where
  "picky = accepting\<lparr>buildHeader := (\<lambda>x. Some ''bad header''),
     buildRequestSetting := (\<lambda>x. Some ''bad request setting''),
     buildCacheSetting := (\<lambda>x. Some ''bad cache setting'')\<rparr>"

definition header_h1 :: header where
  "header_h1 =
     \<lparr>header_name = ''h1'', header_action = ''set'', header_type = ''request'',
      header_destination = ''http.X-Served-By'', header_ignore_if_set = False,
      header_source = [], header_regex = [], header_substitution = [],
      header_priority = 100, header_request_condition = ''X'',
      header_cache_condition = [], header_response_condition = []\<rparr>"

definition request_setting_r1 :: request_setting where
  "request_setting_r1 =
     \<lparr>request_setting_name = ''r1'', request_setting_request_condition = ''X'',
      request_setting_max_stale_age = 60, request_setting_force_miss = False,
      request_setting_force_ssl = True, request_setting_action = ''lookup'',
      request_setting_bypass_busy_wait = False, request_setting_hash_keys = [],
      request_setting_xff = ''append'', request_setting_timer_support = False,
      request_setting_geo_headers = False, request_setting_default_host = []\<rparr>"

definition cache_setting_c1 :: cache_setting where
  "cache_setting_c1 =
     \<lparr>cache_setting_name = ''c1'', cache_setting_action = ''cache'',
      cache_setting_cache_condition = [], cache_setting_stale_ttl = 0,
      cache_setting_ttl = 300\<rparr>"

definition service3_built :: ResourceData where
  "service3_built =
     service3\<lparr>new_state := no_attrs\<lparr>condition := [condition_X], header := [header_h1],
       request_setting := [request_setting_r1], cache_setting := [cache_setting_c1]\<rparr>\<rparr>"

text \<open>The port of the backend \<open>b1\<close> changes from 80 to 443; its name stays.\<close>

definition service3_port :: ResourceData where
  "service3_port = service3\<lparr>old_state := no_attrs\<lparr>backend := [backend_b1]\<rparr>,
     new_state := no_attrs\<lparr>backend := [backend_b1\<lparr>backend_port := 443\<rparr>]\<rparr>\<rparr>"

section \<open>Assertions on the events of a step\<close>

text \<open>
  \<open>triple P m Q E\<close>: started with events that satisfy \<open>P\<close>, the step \<open>m\<close> either
  yields a value \<open>x\<close> with events that satisfy \<open>Q x\<close>, or returns an error \<open>e\<close> with events
  that satisfy \<open>E e\<close>.
\<close>

definition triple ::
  "(event list \<Rightarrow> bool) \<Rightarrow> 'a step \<Rightarrow> ('a \<Rightarrow> event list \<Rightarrow> bool)
    \<Rightarrow> (error \<Rightarrow> event list \<Rightarrow> bool) \<Rightarrow> bool" where
  "triple P m Q E =
     (\<forall>h. P h \<longrightarrow> (case m h of (Inl e, h') \<Rightarrow> E e h' | (Inr x, h') \<Rightarrow> Q x h'))"

text \<open>
  The place of every event in the order of the function's blocks: the rename, the clone, the
  sleep, the settings, then for each collection its deletions and its creations, then the
  validation and the activation of the version. \<open>pos\<close> numbers the collections in the order
  conditions, domains, healthchecks, backends, headers, gzip rules, S3 endpoints, Papertrail
  endpoints, Sumologic endpoints, GCS endpoints, response objects, request settings, VCL,
  cache settings.
\<close>

fun pos :: "kind \<Rightarrow> nat" where
  "pos Condition = 0"
| "pos Domain = 1"
| "pos Healthcheck = 2"
| "pos Backend = 3"
| "pos Header = 4"
| "pos Gzip = 5"
| "pos S3logging = 6"
| "pos Papertrail = 7"
| "pos Sumologic = 8"
| "pos Gcslogging = 9"
| "pos ResponseObject = 10"
| "pos RequestSetting = 11"
| "pos VCL = 12"
| "pos CacheSetting = 13"

fun kind_of :: "item \<Rightarrow> kind" where
  "kind_of (ConditionItem x) = Condition"
| "kind_of (DomainItem x) = Domain"
| "kind_of (HealthcheckItem x) = Healthcheck"
| "kind_of (BackendItem x) = Backend"
| "kind_of (HeaderItem x) = Header"
| "kind_of (GzipItem x) = Gzip"
| "kind_of (S3Item x) = S3logging"
| "kind_of (PapertrailItem x) = Papertrail"
| "kind_of (SumologicItem x) = Sumologic"
| "kind_of (GcsItem x) = Gcslogging"
| "kind_of (ResponseObjectItem x) = ResponseObject"
| "kind_of (RequestSettingItem x) = RequestSetting"
| "kind_of (VCLItem x) = VCL"
| "kind_of (CacheSettingItem x) = CacheSetting"

fun stage :: "event \<Rightarrow> nat" where
  "stage (UpdateService s n) = 0"
| "stage (CloneVersion s v) = 1"
| "stage (Sleep n) = 2"
| "stage (UpdateSettings s v t h) = 3"
| "stage (Delete k s v n) = 4 + 2 * pos k"
| "stage (Create s v x) = 5 + 2 * pos (kind_of x)"
| "stage (ActivateVCL s v n) = 5 + 2 * pos VCL"
| "stage (ValidateVersion s v) = 32"
| "stage (ActivateVersion s v) = 33"


text \<open>
  The events have grown from \<open>h1\<close> by events that all satisfy \<open>ok\<close>.
\<close>

definition grows :: "event list \<Rightarrow> (event \<Rightarrow> bool) \<Rightarrow> event list \<Rightarrow> bool" where
  "grows h1 ok h = (\<exists>q. h = h1 @ q \<and> list_all ok q)"

text \<open>
  The calls that the blocks of \<open>updateVersion\<close> can issue on version \<open>v\<close>. A delete call
  names an element of the old set that is not in the new one; a create call carries an
  element of the new set that is not in the old one, that its builder has accepted and, for
  S3, that has both keys; a VCL activation names such a VCL with \<open>main = true\<close>.
\<close>

fun removed :: "ResourceData \<Rightarrow> kind \<Rightarrow> string \<Rightarrow> bool" where
  "removed d Condition n =
     (n \<in> condition_name ` set (Difference (condition (old_state d)) (condition (new_state d))))"
| "removed d Domain n =
     (n \<in> domain_name ` set (Difference (domain (old_state d)) (domain (new_state d))))"
| "removed d Healthcheck n =
     (n \<in> healthcheck_name
        ` set (Difference (healthcheck (old_state d)) (healthcheck (new_state d))))"
| "removed d Backend n =
     (n \<in> backend_name ` set (Difference (backend (old_state d)) (backend (new_state d))))"
| "removed d Header n =
     (n \<in> header_name ` set (Difference (header (old_state d)) (header (new_state d))))"
| "removed d Gzip n =
     (n \<in> gzip_name ` set (Difference (gzip (old_state d)) (gzip (new_state d))))"
| "removed d S3logging n =
     (n \<in> s3_name ` set (Difference (s3logging (old_state d)) (s3logging (new_state d))))"
| "removed d Papertrail n =
     (n \<in> papertrail_name
        ` set (Difference (papertrail (old_state d)) (papertrail (new_state d))))"
| "removed d Sumologic n =
     (n \<in> sumologic_name ` set (Difference (sumologic (old_state d)) (sumologic (new_state d))))"
| "removed d Gcslogging n =
     (n \<in> gcs_name ` set (Difference (gcslogging (old_state d)) (gcslogging (new_state d))))"
| "removed d ResponseObject n =
     (n \<in> response_object_name
        ` set (Difference (response_object (old_state d)) (response_object (new_state d))))"
| "removed d RequestSetting n =
     (n \<in> request_setting_name
        ` set (Difference (request_setting (old_state d)) (request_setting (new_state d))))"
| "removed d VCL n =
     (n \<in> vcl_name ` set (Difference (vcl (old_state d)) (vcl (new_state d))))"
| "removed d CacheSetting n =
     (n \<in> cache_setting_name
        ` set (Difference (cache_setting (old_state d)) (cache_setting (new_state d))))"

fun added :: "externals \<Rightarrow> ResourceData \<Rightarrow> item \<Rightarrow> bool" where
  "added ext d (ConditionItem x) =
     (x \<in> set (Difference (condition (new_state d)) (condition (old_state d))))"
| "added ext d (DomainItem x) =
     (x \<in> set (Difference (domain (new_state d)) (domain (old_state d))))"
| "added ext d (HealthcheckItem x) =
     (x \<in> set (Difference (healthcheck (new_state d)) (healthcheck (old_state d))))"
| "added ext d (BackendItem x) =
     (x \<in> set (Difference (backend (new_state d)) (backend (old_state d))))"
| "added ext d (HeaderItem x) =
     (x \<in> set (Difference (header (new_state d)) (header (old_state d)))
      \<and> buildHeader ext x = None)"
| "added ext d (GzipItem x) =
     (x \<in> set (Difference (gzip (new_state d)) (gzip (old_state d))))"
| "added ext d (S3Item x) =
     (x \<in> set (Difference (s3logging (new_state d)) (s3logging (old_state d)))
      \<and> s3_access_key x \<noteq> [] \<and> s3_secret_key x \<noteq> [])"
| "added ext d (PapertrailItem x) =
     (x \<in> set (Difference (papertrail (new_state d)) (papertrail (old_state d))))"
| "added ext d (SumologicItem x) =
     (x \<in> set (Difference (sumologic (new_state d)) (sumologic (old_state d))))"
| "added ext d (GcsItem x) =
     (x \<in> set (Difference (gcslogging (new_state d)) (gcslogging (old_state d))))"
| "added ext d (ResponseObjectItem x) =
     (x \<in> set (Difference (response_object (new_state d)) (response_object (old_state d))))"
| "added ext d (RequestSettingItem x) =
     (x \<in> set (Difference (request_setting (new_state d)) (request_setting (old_state d)))
      \<and> buildRequestSetting ext x = None)"
| "added ext d (VCLItem x) =
     (x \<in> set (Difference (vcl (new_state d)) (vcl (old_state d))))"
| "added ext d (CacheSettingItem x) =
     (x \<in> set (Difference (cache_setting (new_state d)) (cache_setting (old_state d)))
      \<and> buildCacheSetting ext x = None)"

fun planned :: "externals \<Rightarrow> ResourceData \<Rightarrow> int \<Rightarrow> event \<Rightarrow> bool" where
  "planned ext d v (UpdateSettings s v' t h) =
     (s = ID d \<and> v' = v \<and> t = default_ttl (new_state d) \<and> h = default_host (new_state d))"
| "planned ext d v (Delete k s v' n) = (s = ID d \<and> v' = v \<and> removed d k n)"
| "planned ext d v (Create s v' x) = (s = ID d \<and> v' = v \<and> added ext d x)"
| "planned ext d v (ActivateVCL s v' n) =
     (s = ID d \<and> v' = v
      \<and> (\<exists>df \<in> set (Difference (vcl (new_state d)) (vcl (old_state d))).
            vcl_main df \<and> vcl_name df = n))"
| "planned ext d v (UpdateService s n) = False"
| "planned ext d v (CloneVersion s v') = False"
| "planned ext d v (Sleep n) = False"
| "planned ext d v (ValidateVersion s v') = False"
| "planned ext d v (ActivateVersion s v') = False"

text \<open>The calls that modify, validate or activate version \<open>v\<close> of service \<open>s\<close>.\<close>

fun versioned :: "string \<Rightarrow> int \<Rightarrow> event \<Rightarrow> bool" where
  "versioned s v (UpdateSettings s' v' t h) = (s' = s \<and> v' = v)"
| "versioned s v (Delete k s' v' n) = (s' = s \<and> v' = v)"
| "versioned s v (Create s' v' x) = (s' = s \<and> v' = v)"
| "versioned s v (ActivateVCL s' v' n) = (s' = s \<and> v' = v)"
| "versioned s v (ValidateVersion s' v') = (s' = s \<and> v' = v)"
| "versioned s v (ActivateVersion s' v') = (s' = s \<and> v' = v)"
| "versioned s v (UpdateService s' n) = False"
| "versioned s v (CloneVersion s' v') = False"
| "versioned s v (Sleep n) = False"

text \<open>
  Neighbouring events in a run, as far as VCL activation goes: the event after the creation
  of a main VCL is the activation of that VCL, and no other event is followed by a VCL
  activation.
\<close>

fun is_ActivateVCL :: "event \<Rightarrow> bool" where
  "is_ActivateVCL (ActivateVCL s v n) = True"
| "is_ActivateVCL e = False"

fun main_create :: "event \<Rightarrow> bool" where
  "main_create (Create s v (VCLItem df)) = vcl_main df"
| "main_create e = False"

fun vcl_next :: "event \<Rightarrow> event \<Rightarrow> bool" where
  "vcl_next (Create s v (VCLItem df)) b =
     (if vcl_main df then b = ActivateVCL s v (vcl_name df) else \<not> is_ActivateVCL b)"
| "vcl_next a b = (\<not> is_ActivateVCL b)"

definition vcl_wf :: "event list \<Rightarrow> bool" where
  "vcl_wf h = (successively vcl_next h \<and> (h = [] \<or> \<not> is_ActivateVCL (hd h)))"

text \<open>
  Between two steps no activation is due: the last event is not the creation of a main VCL.
  When the function has returned an error, the last event may be such a creation, but then
  the call has failed.
\<close>

definition vcl_settled :: "event list \<Rightarrow> bool" where
  "vcl_settled h = (vcl_wf h \<and> (h = [] \<or> \<not> main_create (last h)))"

definition vcl_stopped :: "externals \<Rightarrow> event list \<Rightarrow> bool" where
  "vcl_stopped ext h =
     (vcl_wf h \<and>
      (h = [] \<or> \<not> main_create (last h) \<or> conn_error ext (butlast h) (last h) \<noteq> None))"



section \<open>Rules for assertions\<close>

lemma triple_step:
  assumes "\<And>h. P h \<Longrightarrow> (case m h of (Inl e, h') \<Rightarrow> E e h' | (Inr x, h') \<Rightarrow> Q x h')"
  shows "triple P m Q E"
  using assms by (simp add: triple_def)

lemma tripleD:
  assumes "triple P m Q E" and "P h" and "m h = (r, h')"
  shows "case r of Inl e \<Rightarrow> E e h' | Inr x \<Rightarrow> Q x h'"
  using assms by (auto simp: triple_def split: sum.splits)

lemma triple_return: "(\<And>h. P h \<Longrightarrow> Q x h) \<Longrightarrow> triple P (returnM x) Q E"
  by (simp add: triple_def returnM_def)

lemma triple_fail: "(\<And>h. P h \<Longrightarrow> E e h) \<Longrightarrow> triple P (failM e) Q E"
  by (simp add: triple_def failM_def)

lemma triple_bind:
  assumes "triple P m R E" and "\<And>x. triple (R x) (f x) Q E"
  shows "triple P (bindM m f) Q E"
  using assms unfolding triple_def bindM_def
  by (fastforce split: prod.splits sum.splits)


lemma triple_checked:
  assumes "\<And>h. P h \<Longrightarrow> conn_error ext h c = None \<Longrightarrow> Q () (h @ [c])"
    and "\<And>h e. P h \<Longrightarrow> conn_error ext h c = Some e \<Longrightarrow> E (ClientError e) (h @ [c])"
  shows "triple P (checked ext c) Q E"
  using assms unfolding triple_def checked_def bindM_def callM_def failM_def returnM_def
  by (auto split: option.splits)

lemma triple_forM:
  assumes "\<And>x. x \<in> set xs \<Longrightarrow> triple I (f x) (\<lambda>_. I) E"
  shows "triple I (forM f xs) (\<lambda>_. I) E"
  using assms
proof (induction xs)
  case Nil
  show ?case by (simp add: triple_return)
next
  case (Cons x xs)
  show ?case
    by (simp, rule triple_bind [where R = "\<lambda>_. I"]) (simp_all add: Cons)
qed

lemma triple_seqM:
  assumes "\<And>m. m \<in> set ms \<Longrightarrow> triple I m (\<lambda>_. I) E"
  shows "triple I (seqM ms) (\<lambda>_. I) E"
  using assms
proof (induction ms)
  case Nil
  show ?case by (simp add: triple_return)
next
  case (Cons m ms)
  show ?case
    by (simp, rule triple_bind [where R = "\<lambda>_. I"]) (simp_all add: Cons)
qed

lemma triple_updateSet:
  assumes del: "\<And>x. x \<in> set (Difference os ns) \<Longrightarrow>
      triple P (checked ext (Delete k s v (nm x))) (\<lambda>_. P) E"
    and post: "\<And>x. x \<in> set (Difference ns os) \<Longrightarrow> triple P (post x) (\<lambda>_. P) E"
  shows "triple P (updateSet ext s v k nm post os ns) (\<lambda>_. P) E"
  unfolding updateSet_def Let_def
  by (auto intro!: triple_bind [where R = "\<lambda>_. P"] triple_forM triple_return del post)

section \<open>The events are issued in block order\<close>




















section \<open>Every call on the version is a planned one\<close>

lemma grows_refl: "grows h ok h"
  by (simp add: grows_def)

lemma grows_snoc: "grows h1 ok h \<Longrightarrow> ok c \<Longrightarrow> grows h1 ok (h @ [c])"
  by (auto simp: grows_def)

lemma checked_grows:
  "ok c \<Longrightarrow> triple (grows h1 ok) (checked ext c) (\<lambda>_. grows h1 ok) (\<lambda>_. grows h1 ok)"
  by (rule triple_checked) (auto intro: grows_snoc)

lemma createVCL_grows:
  assumes "x \<in> set (Difference (vcl (new_state d)) (vcl (old_state d)))"
  shows "triple (grows h1 (planned ext d v)) (createVCL ext (ID d) v x)
    (\<lambda>_. grows h1 (planned ext d v)) (\<lambda>_. grows h1 (planned ext d v))"
  unfolding createVCL_def
  using assms
  by (auto intro!: triple_bind [where R = "\<lambda>_. grows h1 (planned ext d v)"] checked_grows
      triple_return)

lemma createS3_grows:
  assumes "x \<in> set (Difference (s3logging (new_state d)) (s3logging (old_state d)))"
  shows "triple (grows h1 (planned ext d v)) (createS3 ext (ID d) v x)
    (\<lambda>_. grows h1 (planned ext d v)) (\<lambda>_. grows h1 (planned ext d v))"
  unfolding createS3_def
  using assms
  by (auto intro!: checked_grows triple_fail)

lemma createBuilt_grows:
  assumes "build x = None \<Longrightarrow> planned ext d v (Create (ID d) v (wrap x))"
  shows "triple (grows h1 (planned ext d v)) (createBuilt ext (ID d) v build wrap x)
    (\<lambda>_. grows h1 (planned ext d v)) (\<lambda>_. grows h1 (planned ext d v))"
  unfolding createBuilt_def
  using assms
  by (auto intro!: checked_grows triple_fail split: option.splits)

lemma create_grows:
  assumes "planned ext d v (Create (ID d) v x)"
  shows "triple (grows h1 (planned ext d v)) (create ext (ID d) v x)
    (\<lambda>_. grows h1 (planned ext d v)) (\<lambda>_. grows h1 (planned ext d v))"
  unfolding create_def
  using assms
  by (auto intro!: checked_grows)

lemma updateSets_planned:
  assumes "m \<in> set (updateSets ext d v)"
  shows "triple (grows h1 (planned ext d v)) m
    (\<lambda>_. grows h1 (planned ext d v)) (\<lambda>_. grows h1 (planned ext d v))"
  using assms unfolding updateSets_def Let_def
  apply simp
  apply (elim disjE; hypsubst)
  by (rule triple_updateSet, rule checked_grows, simp, 
        (rule create_grows createVCL_grows createS3_grows | rule createBuilt_grows), simp)+

lemma updateVersion_planned:
  "triple (grows h1 (planned ext d v)) (updateVersion ext d v)
    (\<lambda>_. grows h1 (planned ext d v)) (\<lambda>_. grows h1 (planned ext d v))"
proof -
  have "triple (grows h1 (planned ext d v)) (updateSettings ext d v)
      (\<lambda>_. grows h1 (planned ext d v)) (\<lambda>_. grows h1 (planned ext d v))"
    unfolding updateSettings_def
    by (auto intro!: checked_grows triple_return)
  then show ?thesis
    unfolding updateVersion_def
    by (rule triple_bind) (rule triple_seqM, erule updateSets_planned)
qed


section \<open>The steps of a run\<close>

lemma updateName_eq:
  "updateName ext d h =
   (if name (old_state d) = name (new_state d) then (Inr (), h)
    else case conn_error ext h (UpdateService (ID d) (name (new_state d))) of
      None \<Rightarrow> (Inr (), h @ [UpdateService (ID d) (name (new_state d))])
    | Some m \<Rightarrow> (Inl (ClientError m), h @ [UpdateService (ID d) (name (new_state d))]))"
  by (simp add: updateName_def checked_def callM_def bindM_def returnM_def failM_def
      split: option.splits)

lemma latestVersion_eq:
  "latestVersion ext d h =
   (if active_version d = 0 then (Inr 1, h)
    else case conn_error ext h (CloneVersion (ID d) (active_version d)) of
      None \<Rightarrow> (Inr (clone_number ext h), h @ [CloneVersion (ID d) (active_version d), Sleep 7])
    | Some m \<Rightarrow> (Inl (ClientError m), h @ [CloneVersion (ID d) (active_version d)]))"
  by (simp add: latestVersion_def cloneVersion_def sleep_def bindM_def returnM_def
      split: option.splits)

lemma activateVersion_eq:
  "activateVersion ext s v h =
   (case conn_error ext h (ActivateVersion s v) of
      None \<Rightarrow> (Inr (), h @ [ActivateVersion s v])
    | Some m \<Rightarrow> (Inl (ActivatingVersion v m), h @ [ActivateVersion s v]))"
  by (simp add: activateVersion_def callM_def bindM_def returnM_def failM_def
      split: option.splits)

lemma updateBody_cases [case_names rename_failed unchanged clone_failed update_failed
    validate_failed activate_failed activated]:
  obtains
    e h0 where "updateName ext d [] = (Inl e, h0)" "updateBody ext d [] = (Inl e, h0)"
  | h0 where "\<not> needsChange d" "updateName ext d [] = (Inr (), h0)"
      "updateBody ext d [] = (Inr d, h0)"
  | h0 e h1 where "needsChange d" "updateName ext d [] = (Inr (), h0)"
      "latestVersion ext d h0 = (Inl e, h1)" "updateBody ext d [] = (Inl e, h1)"
  | h0 v h1 e h2 where "needsChange d" "updateName ext d [] = (Inr (), h0)"
      "latestVersion ext d h0 = (Inr v, h1)" "updateVersion ext d v h1 = (Inl e, h2)"
      "updateBody ext d [] = (Inl e, h2)"
  | h0 v h1 h2 e h3 where "needsChange d" "updateName ext d [] = (Inr (), h0)"
      "latestVersion ext d h0 = (Inr v, h1)" "updateVersion ext d v h1 = (Inr (), h2)"
      "validateVersion ext (ID d) v h2 = (Inl e, h3)" "updateBody ext d [] = (Inl e, h3)"
  | h0 v h1 h2 h3 e h4 where "needsChange d" "updateName ext d [] = (Inr (), h0)"
      "latestVersion ext d h0 = (Inr v, h1)" "updateVersion ext d v h1 = (Inr (), h2)"
      "validateVersion ext (ID d) v h2 = (Inr (), h3)"
      "activateVersion ext (ID d) v h3 = (Inl e, h4)" "updateBody ext d [] = (Inl e, h4)"
  | h0 v h1 h2 h3 h4 where "needsChange d" "updateName ext d [] = (Inr (), h0)"
      "latestVersion ext d h0 = (Inr v, h1)" "updateVersion ext d v h1 = (Inr (), h2)"
      "validateVersion ext (ID d) v h2 = (Inr (), h3)"
      "activateVersion ext (ID d) v h3 = (Inr (), h4)"
      "updateBody ext d [] = (Inr (d\<lparr>active_version := v\<rparr>), h4)"
proof -
  obtain r0 h0 where s0: "updateName ext d [] = (r0, h0)"
    by (cases "updateName ext d []")
  obtain r1 h1 where s1: "latestVersion ext d h0 = (r1, h1)"
    by (cases "latestVersion ext d h0")
  show thesis
  proof (cases r0)
    case (Inl e)
    with s0 that(1) show thesis
      by (simp add: updateBody_def bindM_def)
  next
    case r0: (Inr u0)
    show thesis
    proof (cases "needsChange d")
      case False
      with s0 r0 that(2) show thesis
        by (simp add: updateBody_def bindM_def returnM_def)
    next
      case nc: True
      show thesis
      proof (cases r1)
        case (Inl e)
        with s0 r0 nc s1 that(3) show thesis
          by (simp add: updateBody_def bindM_def)
      next
        case r1: (Inr v)
        obtain r2 h2 where s2: "updateVersion ext d v h1 = (r2, h2)"
          by (cases "updateVersion ext d v h1")
        obtain r3 h3 where s3: "validateVersion ext (ID d) v h2 = (r3, h3)"
          by (cases "validateVersion ext (ID d) v h2")
        obtain r4 h4 where s4: "activateVersion ext (ID d) v h3 = (r4, h4)"
          by (cases "activateVersion ext (ID d) v h3")
        show thesis
        proof (cases r2)
          case (Inl e)
          with s0 r0 nc s1 r1 s2 that(4) show thesis
            by (simp add: updateBody_def bindM_def)
        next
          case r2: (Inr u2)
          show thesis
          proof (cases r3)
            case (Inl e)
            with s0 r0 nc s1 r1 s2 r2 s3 that(5) show thesis
              by (simp add: updateBody_def bindM_def)
          next
            case r3: (Inr u3)
            show thesis
            proof (cases r4)
              case (Inl e)
              with s0 r0 nc s1 r1 s2 r2 s3 r3 s4 that(6) show thesis
                by (simp add: updateBody_def bindM_def)
            next
              case (Inr u4)
              with s0 r0 nc s1 r1 s2 r2 s3 r3 s4 that(7) show thesis
                by (simp add: updateBody_def bindM_def returnM_def)
            qed
          qed
        qed
      qed
    qed
  qed
qed


lemma validateVersion_trace:
  "validateVersion ext s v h = (r, h') \<Longrightarrow> h' = h @ [ValidateVersion s v]"
  by (auto simp: validateVersion_def split: option.splits prod.splits if_splits)

lemma activateVersion_trace:
  "activateVersion ext s v h = (r, h') \<Longrightarrow> h' = h @ [ActivateVersion s v]"
  by (auto simp: activateVersion_eq split: option.splits)

lemma update_trace:
  "validateVCLs d = None \<Longrightarrow> updateBody ext d [] = (r, h) \<Longrightarrow>
   snd (snd (resourceServiceV1Update ext d)) = h"
  by (auto simp: resourceServiceV1Update_def split: sum.splits prod.splits)

lemma update_error:
  "validateVCLs d = None \<Longrightarrow> updateBody ext d [] = (Inl e, h) \<Longrightarrow>
   resourceServiceV1Update ext d = (Some e, d, h)"
  by (simp add: resourceServiceV1Update_def)

lemma planned_versioned: "planned ext d v e \<Longrightarrow> versioned (ID d) v e"
  by (cases e) simp_all

lemma grows_mono: "grows h1 ok h \<Longrightarrow> (\<And>e. ok e \<Longrightarrow> ok' e) \<Longrightarrow> grows h1 ok' h"
  by (auto simp: grows_def list_all_iff)

lemma updateVersion_grows:
  assumes "updateVersion ext d v h1 = (r, h2)"
  shows "grows h1 (planned ext d v) h2"
  using tripleD [OF updateVersion_planned grows_refl assms]
  by (cases r) simp_all

lemma snoc_split:
  assumes "p @ x # q = h @ [y]" and "x \<notin> set h"
  shows "p = h \<and> q = [] \<and> x = y"
proof (cases q rule: rev_cases)
  case Nil
  with assms show ?thesis by simp
next
  case (snoc q' z)
  with assms have "p @ x # q' = h" by simp
  then have "x \<in> set h" by auto
  with assms show ?thesis by simp
qed

lemma snoc2_split:
  assumes "p @ x # q = h @ [y, z]" and "x \<notin> set h" and "x \<noteq> z"
  shows "p = h \<and> q = [z] \<and> x = y"
proof (cases q rule: rev_cases)
  case Nil
  with assms show ?thesis by simp
next
  case (snoc q' z')
  with assms have "p @ x # q' = h @ [y]" and "z' = z" by simp_all
  with snoc_split [OF this(1) assms(2)] snoc show ?thesis by simp
qed

lemma updateName_early:
  "updateName ext d [] = (r, h0) \<Longrightarrow> list_all (\<lambda>e. stage e < 32) h0"
  by (auto simp: updateName_eq split: if_splits option.splits)

lemma latestVersion_early:
  "latestVersion ext d h0 = (r, h1) \<Longrightarrow> list_all (\<lambda>e. stage e < 32) h0 \<Longrightarrow>
   list_all (\<lambda>e. stage e < 32) h1"
  by (auto simp: latestVersion_eq split: if_splits option.splits)

lemma pos_le: "pos k \<le> 13"
  by (cases k) simp_all

lemma planned_early:
  assumes "planned ext d v e"
  shows "stage e < 32"
proof (cases e)
  case (Delete k s v' n)
  with pos_le [of k] show ?thesis by simp
next
  case (Create s v' x)
  with pos_le [of "kind_of x"] show ?thesis by simp
qed (use assms in simp_all)

lemma updateVersion_early:
  assumes "updateVersion ext d v h1 = (r, h2)" and "list_all (\<lambda>e. stage e < 32) h1"
  shows "list_all (\<lambda>e. stage e < 32) h2"
  using updateVersion_grows [OF assms(1)] assms(2)
  by (auto simp: grows_def list_all_iff dest: planned_early)

lemma validateVersion_eq:
  "validateVersion ext s v h =
   (case conn_error ext h (ValidateVersion s v) of
      Some m \<Rightarrow> (Inl (CheckingValidation m), h @ [ValidateVersion s v])
    | None \<Rightarrow>
        if fst (validate_result ext h) then (Inr (), h @ [ValidateVersion s v])
        else (Inl (InvalidConfiguration s (snd (validate_result ext h))),
              h @ [ValidateVersion s v]))"
  by (simp add: validateVersion_def split: option.splits prod.splits)

section \<open>VCL creation and activation are neighbours\<close>

lemma vcl_next_plain: "\<not> main_create a \<Longrightarrow> \<not> is_ActivateVCL b \<Longrightarrow> vcl_next a b"
  by (induction a b rule: vcl_next.induct) simp_all

lemma vcl_settled_Nil: "vcl_settled []"
  by (simp add: vcl_settled_def vcl_wf_def)

lemma vcl_wf_snoc_iff:
  "vcl_wf (h @ [c]) \<longleftrightarrow>
   (if h = [] then \<not> is_ActivateVCL c else vcl_wf h \<and> vcl_next (last h) c)"
proof (cases "h = []")
  case True
  then show ?thesis by (simp add: vcl_wf_def)
next
  case False
  then have "hd (h @ [c]) = hd h" by simp
  with False show ?thesis
    by (auto simp: vcl_wf_def successively_append_iff)
qed

lemma vcl_wf_snoc:
  assumes "vcl_settled h" and "\<not> is_ActivateVCL c"
  shows "vcl_wf (h @ [c])"
  using assms
  by (auto simp: vcl_wf_snoc_iff vcl_settled_def intro: vcl_next_plain)

lemma vcl_settled_snoc:
  assumes "vcl_settled h" and "\<not> is_ActivateVCL c" and "\<not> main_create c"
  shows "vcl_settled (h @ [c])"
  using vcl_wf_snoc [OF assms(1,2)] assms(3) by (simp add: vcl_settled_def)

lemma vcl_settled_snoc2:
  assumes "vcl_settled h" and "\<not> is_ActivateVCL c" and "\<not> main_create c"
    and "\<not> is_ActivateVCL c'" and "\<not> main_create c'"
  shows "vcl_settled (h @ [c, c'])"
  using vcl_settled_snoc [OF vcl_settled_snoc [OF assms(1-3)] assms(4,5)] by simp

lemma vcl_settled_stopped: "vcl_settled h \<Longrightarrow> vcl_stopped ext h"
  by (auto simp: vcl_settled_def vcl_stopped_def)

lemma checked_vcl:
  assumes "\<not> is_ActivateVCL c" and "\<not> main_create c"
  shows "triple vcl_settled (checked ext c) (\<lambda>_. vcl_settled) (\<lambda>_. vcl_stopped ext)"
proof (rule triple_checked)
  fix h assume "vcl_settled h"
  then have *: "vcl_settled (h @ [c])"
    by (rule vcl_settled_snoc) (rule assms)+
  show "vcl_settled (h @ [c])" by (rule *)
  show "vcl_stopped ext (h @ [c])" using * by (rule vcl_settled_stopped)
qed

lemma createVCL_vcl:
  "triple vcl_settled (createVCL ext s v df) (\<lambda>_. vcl_settled) (\<lambda>_. vcl_stopped ext)"
proof (rule triple_step)
  fix h assume h: "vcl_settled h"
  let ?c = "Create s v (VCLItem df)"
  let ?a = "ActivateVCL s v (vcl_name df)"
  have wf1: "vcl_wf (h @ [?c])"
    using h by (rule vcl_wf_snoc) simp
  have "vcl_wf ((h @ [?c]) @ [?a])" if "vcl_main df"
    using wf1 that by (simp only: vcl_wf_snoc_iff) simp
  then have wf2: "vcl_wf (h @ [?c, ?a])" if "vcl_main df"
    using that by simp
  have s2: "vcl_settled (h @ [?c, ?a])" if "vcl_main df"
    using wf2 [OF that] by (simp add: vcl_settled_def)
  have s1: "vcl_settled (h @ [?c])" if "\<not> vcl_main df"
    using wf1 that by (simp add: vcl_settled_def)
  have x1: "vcl_stopped ext (h @ [?c])" if "conn_error ext h ?c \<noteq> None"
    using wf1 that by (simp add: vcl_stopped_def)
  show "case createVCL ext s v df h of (Inl e, h') \<Rightarrow> vcl_stopped ext h'
      | (Inr x, h') \<Rightarrow> vcl_settled h'"
    using s1 s2 x1 vcl_settled_stopped [of "h @ [?c, ?a]" ext]
    by (auto simp: createVCL_def checked_def callM_def bindM_def returnM_def failM_def
        split: option.splits)
qed

lemma createBuilt_vcl:
  assumes "\<not> main_create (Create s v (wrap x))"
  shows "triple vcl_settled (createBuilt ext s v build wrap x) (\<lambda>_. vcl_settled)
    (\<lambda>_. vcl_stopped ext)"
  unfolding createBuilt_def using assms
  by (auto intro!: checked_vcl triple_fail vcl_settled_stopped split: option.splits)

lemma createS3_vcl:
  "triple vcl_settled (createS3 ext s v x) (\<lambda>_. vcl_settled) (\<lambda>_. vcl_stopped ext)"
  unfolding createS3_def
  by (auto intro!: checked_vcl triple_fail vcl_settled_stopped)

lemma create_vcl:
  assumes "\<not> main_create (Create s v x)"
  shows "triple vcl_settled (create ext s v x) (\<lambda>_. vcl_settled) (\<lambda>_. vcl_stopped ext)"
  unfolding create_def using assms by (auto intro!: checked_vcl)

lemma updateSets_vcl:
  assumes "m \<in> set (updateSets ext d v)"
  shows "triple vcl_settled m (\<lambda>_. vcl_settled) (\<lambda>_. vcl_stopped ext)"
  using assms unfolding updateSets_def Let_def
  apply simp
  apply (elim disjE; hypsubst)
  by (rule triple_updateSet, rule checked_vcl, simp, simp,
        (rule create_vcl createVCL_vcl createS3_vcl | rule createBuilt_vcl), simp?)+

lemma updateVersion_vcl:
  "triple vcl_settled (updateVersion ext d v) (\<lambda>_. vcl_settled) (\<lambda>_. vcl_stopped ext)"
proof -
  have "triple vcl_settled (updateSettings ext d v) (\<lambda>_. vcl_settled) (\<lambda>_. vcl_stopped ext)"
    unfolding updateSettings_def
    by (auto intro!: checked_vcl triple_return)
  then show ?thesis
    unfolding updateVersion_def
    by (rule triple_bind) (rule triple_seqM, erule updateSets_vcl)
qed

lemma updateBody_vcl:
  "triple vcl_settled (updateBody ext d) (\<lambda>_. vcl_settled) (\<lambda>_. vcl_stopped ext)"
proof -
  have name: "triple vcl_settled (updateName ext d) (\<lambda>_. vcl_settled) (\<lambda>_. vcl_stopped ext)"
    unfolding updateName_def by (auto intro!: checked_vcl triple_return)
  have version: "triple vcl_settled (latestVersion ext d) (\<lambda>_. vcl_settled)
      (\<lambda>_. vcl_stopped ext)"
    by (rule triple_step)
       (auto simp: latestVersion_eq split: option.splits
          intro!: vcl_settled_snoc vcl_settled_snoc2 vcl_settled_stopped)
  have validate: "triple vcl_settled (validateVersion ext s v) (\<lambda>_. vcl_settled)
      (\<lambda>_. vcl_stopped ext)" for s v
    by (rule triple_step)
       (auto simp: validateVersion_eq split: option.splits
          intro!: vcl_settled_snoc vcl_settled_stopped)
  have activate: "triple vcl_settled (activateVersion ext s v) (\<lambda>_. vcl_settled)
      (\<lambda>_. vcl_stopped ext)" for s v
    by (rule triple_step)
       (auto simp: activateVersion_eq split: option.splits
          intro!: vcl_settled_snoc vcl_settled_stopped)
  show ?thesis
    unfolding updateBody_def
    apply (rule triple_bind [OF name])
    apply (cases "needsChange d"; simp)
     apply (rule triple_bind [OF version])
     apply (rule triple_bind [OF updateVersion_vcl])
     apply (rule triple_bind [OF validate])
     apply (rule triple_bind [OF activate])
     apply (rule triple_return, assumption)
    apply (rule triple_return, assumption)
    done
qed

lemma update_vcl_stopped: "vcl_stopped ext (snd (snd (resourceServiceV1Update ext d)))"
proof -
  obtain r h where run: "updateBody ext d [] = (r, h)"
    by (cases "updateBody ext d []")
  from tripleD [OF updateBody_vcl vcl_settled_Nil run]
  have "vcl_stopped ext h"
    by (cases r) (simp_all add: vcl_settled_stopped)
  with run show ?thesis
    by (auto simp: resourceServiceV1Update_def vcl_stopped_def vcl_wf_def
        split: option.splits prod.splits sum.splits)
qed

lemma successively_mid: "successively P (p @ a # b # q) \<Longrightarrow> P a b"
  by (simp add: successively_append_iff successively_Cons)

lemma vcl_next_activate:
  "vcl_next a (ActivateVCL s v n) \<Longrightarrow>
   \<exists>df. a = Create s v (VCLItem df) \<and> vcl_main df \<and> vcl_name df = n"
  by (induction a "ActivateVCL s v n" rule: vcl_next.induct) (auto split: if_splits)

section \<open>Create calls carry accepted elements\<close>









subsection \<open>A run stops at an element that is rejected\<close>







subsection \<open>The errors of a run that meets an S3 endpoint without a key\<close>












subsection \<open>A rejected element to add makes the function return an error\<close>









section \<open>The sample configurations, evaluated\<close>

lemmas sample_defs = accepting_def rejecting_def unclonable_def no_attrs_def service3_def
  service3_sumologic_def service3_s3_nokey_def service3_backend_def service3_vcl_def
  service0_vcl_def service3_nomain_def service3_port_def picky_def service3_built_def

lemmas run_defs = resourceServiceV1Update_def validateVCLs_def updateBody_def updateName_def
  needsChange_def HasChangeSet_def Difference_def latestVersion_def cloneVersion_def sleep_def
  updateSettings_def updateVersion_def updateSets_def updateSet_def create_def createBuilt_def createS3_def
  createVCL_def validateVersion_def activateVersion_def checked_def callM_def bindM_def
  returnM_def failM_def Let_def

lemma run_sumologic:
  "resourceServiceV1Update accepting service3_sumologic = (None, service3_sumologic, [])"
  by (simp add: run_defs sample_defs)



lemma run_nomain:
  "resourceServiceV1Update accepting service3_nomain = (Some VCLNoMain, service3_nomain, [])"
  by (simp add: run_defs sample_defs vcl_B_def)

lemma run_vcl:
  "resourceServiceV1Update accepting service3_vcl =
   (None, service3_vcl\<lparr>active_version := 4\<rparr>,
    [CloneVersion (ID service3) 3, Sleep 7, Create (ID service3) 4 (VCLItem vcl_B),
     ValidateVersion (ID service3) 4, ActivateVersion (ID service3) 4])"
  by (simp add: run_defs sample_defs vcl_A_def vcl_B_def)

lemma body_vcl:
  "updateBody accepting service3_vcl [] =
   (Inr (service3_vcl\<lparr>active_version := 4\<rparr>),
    [CloneVersion (ID service3) 3, Sleep 7, Create (ID service3) 4 (VCLItem vcl_B),
     ValidateVersion (ID service3) 4, ActivateVersion (ID service3) 4])"
  by (simp add: run_defs sample_defs vcl_A_def vcl_B_def)

lemma run_vcl_rejecting:
  "resourceServiceV1Update rejecting service3_vcl =
   (Some (InvalidConfiguration (ID service3) ''Syntax error''), service3_vcl,
    [CloneVersion (ID service3) 3, Sleep 7, Create (ID service3) 4 (VCLItem vcl_B),
     ValidateVersion (ID service3) 4])"
  by (simp add: run_defs sample_defs vcl_A_def vcl_B_def)

lemma run_vcl_unclonable:
  "resourceServiceV1Update unclonable service3_vcl =
   (Some (ClientError ''clone failed''), service3_vcl, [CloneVersion (ID service3) 3])"
  by (simp add: run_defs sample_defs vcl_A_def vcl_B_def)

lemma run_new_service:
  "resourceServiceV1Update accepting service0_vcl =
   (None, service0_vcl\<lparr>active_version := 1\<rparr>,
    [Create (ID service3) 1 (DomainItem domain_www),
     Create (ID service3) 1 (VCLItem vcl_A), ActivateVCL (ID service3) 1 ''A'',
     ValidateVersion (ID service3) 1, ActivateVersion (ID service3) 1])"
  by (simp add: run_defs sample_defs vcl_A_def vcl_B_def)




lemma sample_conn:
  "conn_error accepting h c = None"
  "conn_error rejecting h c = None"
  "clone_number accepting h = 4"
  "validate_result rejecting h = (False, ''Syntax error'')"
  "conn_error unclonable h (CloneVersion s v) = Some ''clone failed''"
  by (simp_all add: accepting_def rejecting_def unclonable_def)

lemma sample_ids:
  "ID service3_vcl = ID service3" "active_version service3_vcl = 3"
  "ID service0_vcl = ID service3" "active_version service0_vcl = 0"
  by (simp_all add: sample_defs)

section \<open>The VCL validation\<close>

lemma countVCLs_eq:
  "countVCLs vs (m, i) =
   (m + length (filter vcl_main vs), i + length (filter (\<lambda>v. \<not> vcl_main v) vs))"
  by (induction vs arbitrary: m i) auto

lemma validateVCLs_eq:
  "validateVCLs d =
   (if vcl (new_state d) = [] then None
    else if length (filter vcl_main (vcl (new_state d))) = 0 then Some VCLNoMain
    else if length (filter vcl_main (vcl (new_state d))) > 1 then Some VCLManyMain
    else None)"
proof -
  define vs where "vs = vcl (new_state d)"
  define m where "m = length (filter vcl_main vs)"
  define i where "i = length (filter (\<lambda>v. \<not> vcl_main v) vs)"
  have "m + i = length vs"
    unfolding m_def i_def by (rule sum_length_filter_compl)
  then have pos: "vs \<noteq> [] \<Longrightarrow> 0 < m + i" by simp
  have "validateVCLs d = (if vs = [] then None else if m = 0 \<and> i > 0 then Some VCLNoMain
      else if m > 1 then Some VCLManyMain else None)"
    by (simp add: validateVCLs_def Let_def countVCLs_eq vs_def m_def i_def)
  with pos show ?thesis
    unfolding vs_def [symmetric] m_def [symmetric] by (auto split: if_splits)
qed

section \<open>Properties of the update function\<close>





text \<open>
  C4. For any two sets of elements, the elements to remove are those of the old set that are
  not in the new one, and the elements to add are those of the new set that are not in the
  old one, under equality of all fields. The difference of a set with itself is empty both
  ways. When names are unique within each set, an element whose name stays and whose other
  fields change is in both differences: with its old values among the elements to remove,
  with its new values among the elements to add.
\<close>

theorem Difference_value_equality:
  "set (Difference old new) = set old - set new \<and>
   set (Difference new old) = set new - set old \<and>
   Difference X X = [] \<and>
   (distinct (map nm old) \<longrightarrow> distinct (map nm new) \<longrightarrow> r \<in> set old \<longrightarrow> r' \<in> set new \<longrightarrow>
      nm r = nm r' \<longrightarrow> r \<noteq> r' \<longrightarrow>
      r \<in> set (Difference old new) \<and> r' \<in> set (Difference new old))"
  by (auto simp: Difference_def distinct_map inj_on_def)

theorem Difference_value_equality_witness:
  "Difference [backend_b1] [backend_b1\<lparr>backend_port := 443\<rparr>] = [backend_b1] \<and>
   Difference [backend_b1\<lparr>backend_port := 443\<rparr>] [backend_b1]
     = [backend_b1\<lparr>backend_port := 443\<rparr>] \<and>
   Difference [backend_b1] [backend_b1] = [] \<and>
   backend_name backend_b1 = backend_name (backend_b1\<lparr>backend_port := 443\<rparr>)"
  using Difference_value_equality [of "[backend_b1]" "[backend_b1\<lparr>backend_port := 443\<rparr>]"
      "[backend_b1]" backend_name backend_b1 "backend_b1\<lparr>backend_port := 443\<rparr>"]
  by (simp add: Difference_def backend_b1_def)

text \<open>
  C6. The VCL validation accepts a desired state exactly when its VCL collection is empty or
  has exactly one element with \<open>main = true\<close>. When the collection is not empty and has no
  main element, or has more than one, the update function returns the configuration error
  without issuing any call: no event at all, hence no clone of a version either, and the
  resource data is as before.
\<close>

theorem vcl_main_invariant:
  "(validateVCLs d = None \<longleftrightarrow>
      vcl (new_state d) = [] \<or> length (filter vcl_main (vcl (new_state d))) = 1) \<and>
   (vcl (new_state d) \<noteq> [] \<and> length (filter vcl_main (vcl (new_state d))) = 0 \<longrightarrow>
      resourceServiceV1Update ext d = (Some VCLNoMain, d, [])) \<and>
   (length (filter vcl_main (vcl (new_state d))) > 1 \<longrightarrow>
      resourceServiceV1Update ext d = (Some VCLManyMain, d, []))"
proof -
  define m where "m = length (filter vcl_main (vcl (new_state d)))"
  have empty: "vcl (new_state d) = [] \<Longrightarrow> m = 0"
    by (simp add: m_def)
  have "validateVCLs d =
      (if vcl (new_state d) = [] then None else if m = 0 then Some VCLNoMain
       else if m > 1 then Some VCLManyMain else None)"
    unfolding m_def by (rule validateVCLs_eq)
  with empty show ?thesis
    unfolding resourceServiceV1Update_def m_def [symmetric]
    by (cases "m = 0"; cases "m = 1") (auto split: if_splits)
qed

theorem vcl_main_invariant_witness:
  "vcl (new_state service3_nomain) \<noteq> [] \<and>
   length (filter vcl_main (vcl (new_state service3_nomain))) = 0 \<and>
   resourceServiceV1Update accepting service3_nomain = (Some VCLNoMain, service3_nomain, [])"
  using vcl_main_invariant [of service3_nomain accepting]
  by (simp add: service3_nomain_def service3_def no_attrs_def vcl_B_def)

text \<open>
  C1. The loop that decides whether a new version is needed does not look at the Sumologic
  and GCS collections. When only the Sumologic collection changes, the update function takes
  no version and issues no call, although it has a block that would apply the change.
\<close>

theorem sumologic_change_is_dropped:
  "HasChangeSet (sumologic (old_state service3_sumologic))
     (sumologic (new_state service3_sumologic)) \<and>
   resourceServiceV1Update accepting service3_sumologic = (None, service3_sumologic, [])"
  by (simp add: run_sumologic)
     (simp add: HasChangeSet_def service3_sumologic_def service3_def no_attrs_def)

theorem sumologic_change_is_dropped_witness:
  "snd (snd (resourceServiceV1Update accepting service3_sumologic)) = []"
  using sumologic_change_is_dropped by simp

text \<open>
  C7. The block that picks the version to modify yields version 1 and issues no call when
  the active version is 0. Otherwise it calls \<open>CloneVersion\<close> on the active version; when
  the call succeeds it yields the number of the new version and sleeps seven seconds, and
  when the call fails it returns the error. In a run that needs a new version, past the VCL
  validation and the rename: if the clone fails, the function returns its error and the
  clone is the last event of the run; if it succeeds, the sleep follows at once and every
  event after it is a call on the version number that the clone returned; with active
  version 0, every event after the rename is a call on version 1.
\<close>

theorem working_version:
  "(active_version d = 0 \<longrightarrow> latestVersion ext d h = (Inr 1, h)) \<and>
   (active_version d \<noteq> 0 \<and>
    conn_error ext h (CloneVersion (ID d) (active_version d)) = None \<longrightarrow>
      latestVersion ext d h
        = (Inr (clone_number ext h), h @ [CloneVersion (ID d) (active_version d), Sleep 7])) \<and>
   (active_version d \<noteq> 0 \<and>
    conn_error ext h (CloneVersion (ID d) (active_version d)) = Some m' \<longrightarrow>
      latestVersion ext d h
        = (Inl (ClientError m'), h @ [CloneVersion (ID d) (active_version d)])) \<and>
   (validateVCLs d = None \<and> needsChange d \<and> updateName ext d [] = (Inr (), h0) \<longrightarrow>
     (active_version d = 0 \<longrightarrow>
        grows h0 (versioned (ID d) 1) (snd (snd (resourceServiceV1Update ext d)))) \<and>
     (active_version d \<noteq> 0 \<longrightarrow>
        (\<forall>m. conn_error ext h0 (CloneVersion (ID d) (active_version d)) = Some m \<longrightarrow>
           resourceServiceV1Update ext d
             = (Some (ClientError m), d, h0 @ [CloneVersion (ID d) (active_version d)])) \<and>
        (conn_error ext h0 (CloneVersion (ID d) (active_version d)) = None \<longrightarrow>
           grows (h0 @ [CloneVersion (ID d) (active_version d), Sleep 7])
             (versioned (ID d) (clone_number ext h0))
             (snd (snd (resourceServiceV1Update ext d))))))"
proof (intro conjI impI; (elim conjE)?)
  show "latestVersion ext d h = (Inr 1, h)" if "active_version d = 0"
    using that by (simp add: latestVersion_eq)
  show "latestVersion ext d h
      = (Inr (clone_number ext h), h @ [CloneVersion (ID d) (active_version d), Sleep 7])"
    if "active_version d \<noteq> 0"
      "conn_error ext h (CloneVersion (ID d) (active_version d)) = None"
    using that by (simp add: latestVersion_eq)
  show "latestVersion ext d h
      = (Inl (ClientError m'), h @ [CloneVersion (ID d) (active_version d)])"
    if "active_version d \<noteq> 0"
      "conn_error ext h (CloneVersion (ID d) (active_version d)) = Some m'"
    using that by (simp add: latestVersion_eq)
next
  assume ok: "validateVCLs d = None" and nc: "needsChange d"
    and nm: "updateName ext d [] = (Inr (), h0)"
  have tail: "grows h1 (versioned (ID d) v) (snd (snd (resourceServiceV1Update ext d)))"
    if lv: "latestVersion ext d h0 = (Inr v, h1)" for v h1
  proof (cases ext d rule: updateBody_cases)
    case (rename_failed e h0')
    with nm show ?thesis by simp
  next
    case (unchanged h0')
    with nc show ?thesis by simp
  next
    case (clone_failed h0' e h1')
    with nm lv show ?thesis by simp
  next
    case (update_failed h0' v' h1' e h2)
    with nm lv have "grows h1 (planned ext d v) h2"
      by (auto dest: updateVersion_grows)
    then have "grows h1 (versioned (ID d) v) h2"
      by (rule grows_mono) (rule planned_versioned)
    with update_failed ok show ?thesis
      by (simp add: update_trace)
  next
    case (validate_failed h0' v' h1' h2 e h3)
    with nm lv have "grows h1 (planned ext d v) h2"
      by (auto dest: updateVersion_grows)
    then have "grows h1 (versioned (ID d) v) h2"
      by (rule grows_mono) (rule planned_versioned)
    then have "grows h1 (versioned (ID d) v) (h2 @ [ValidateVersion (ID d) v])"
      by (rule grows_snoc) simp
    with validate_failed nm lv ok show ?thesis
      by (auto simp: update_trace dest!: validateVersion_trace)
  next
    case (activate_failed h0' v' h1' h2 h3 e h4)
    with nm lv have "grows h1 (planned ext d v) h2"
      by (auto dest: updateVersion_grows)
    then have "grows h1 (versioned (ID d) v) h2"
      by (rule grows_mono) (rule planned_versioned)
    then have "grows h1 (versioned (ID d) v) (h2 @ [ValidateVersion (ID d) v])"
      by (rule grows_snoc) simp
    then have "grows h1 (versioned (ID d) v)
        ((h2 @ [ValidateVersion (ID d) v]) @ [ActivateVersion (ID d) v])"
      by (rule grows_snoc) simp
    with activate_failed nm lv ok show ?thesis
      by (auto simp: update_trace dest!: validateVersion_trace activateVersion_trace)
  next
    case (activated h0' v' h1' h2 h3 h4)
    with nm lv have "grows h1 (planned ext d v) h2"
      by (auto dest: updateVersion_grows)
    then have "grows h1 (versioned (ID d) v) h2"
      by (rule grows_mono) (rule planned_versioned)
    then have "grows h1 (versioned (ID d) v) (h2 @ [ValidateVersion (ID d) v])"
      by (rule grows_snoc) simp
    then have "grows h1 (versioned (ID d) v)
        ((h2 @ [ValidateVersion (ID d) v]) @ [ActivateVersion (ID d) v])"
      by (rule grows_snoc) simp
    with activated nm lv ok show ?thesis
      by (auto simp: update_trace dest!: validateVersion_trace activateVersion_trace)
  qed
  show "grows h0 (versioned (ID d) 1) (snd (snd (resourceServiceV1Update ext d)))"
    if "active_version d = 0"
    by (rule tail) (simp add: latestVersion_eq that)
  show "grows (h0 @ [CloneVersion (ID d) (active_version d), Sleep 7])
      (versioned (ID d) (clone_number ext h0)) (snd (snd (resourceServiceV1Update ext d)))"
    if "active_version d \<noteq> 0" "conn_error ext h0 (CloneVersion (ID d) (active_version d)) = None"
    by (rule tail) (simp add: latestVersion_eq that)
  show "\<forall>m. conn_error ext h0 (CloneVersion (ID d) (active_version d)) = Some m \<longrightarrow>
      resourceServiceV1Update ext d
        = (Some (ClientError m), d, h0 @ [CloneVersion (ID d) (active_version d)])"
    if nz: "active_version d \<noteq> 0"
  proof (intro allI impI)
    fix m
    assume "conn_error ext h0 (CloneVersion (ID d) (active_version d)) = Some m"
    with nz have "latestVersion ext d h0
        = (Inl (ClientError m), h0 @ [CloneVersion (ID d) (active_version d)])"
      by (simp add: latestVersion_eq)
    with nm nc have "updateBody ext d []
        = (Inl (ClientError m), h0 @ [CloneVersion (ID d) (active_version d)])"
      by (simp add: updateBody_def bindM_def)
    with ok show "resourceServiceV1Update ext d
        = (Some (ClientError m), d, h0 @ [CloneVersion (ID d) (active_version d)])"
      by (rule update_error)
  qed
qed


theorem working_version_witness:
  "validateVCLs service3_vcl = None \<and> needsChange service3_vcl \<and>
   updateName accepting service3_vcl [] = (Inr (), []) \<and>
   active_version service3_vcl \<noteq> 0 \<and>
   conn_error accepting [] (CloneVersion (ID service3_vcl) (active_version service3_vcl)) = None \<and>
   grows ([] @ [CloneVersion (ID service3_vcl) (active_version service3_vcl), Sleep 7])
     (versioned (ID service3_vcl) (clone_number accepting []))
     (snd (snd (resourceServiceV1Update accepting service3_vcl))) \<and>
   conn_error unclonable [] (CloneVersion (ID service3_vcl) (active_version service3_vcl))
     = Some ''clone failed'' \<and>
   resourceServiceV1Update unclonable service3_vcl =
     (Some (ClientError ''clone failed''), service3_vcl,
      [] @ [CloneVersion (ID service3_vcl) (active_version service3_vcl)]) \<and>
   latestVersion accepting service3_vcl []
     = (Inr (clone_number accepting []),
        [] @ [CloneVersion (ID service3_vcl) (active_version service3_vcl), Sleep 7]) \<and>
   latestVersion unclonable service3_vcl []
     = (Inl (ClientError ''clone failed''),
        [] @ [CloneVersion (ID service3_vcl) (active_version service3_vcl)]) \<and>
   active_version service0_vcl = 0 \<and>
   latestVersion accepting service0_vcl [] = (Inr 1, []) \<and>
   grows [] (versioned (ID service0_vcl) 1)
     (snd (snd (resourceServiceV1Update accepting service0_vcl)))"
proof -
  have a: "validateVCLs service3_vcl = None \<and> needsChange service3_vcl \<and>
      updateName accepting service3_vcl [] = (Inr (), [])"
    by (simp add: validateVCLs_def needsChange_def updateName_def HasChangeSet_def returnM_def
        sample_defs vcl_A_def vcl_B_def)
  have u: "updateName unclonable service3_vcl [] = (Inr (), [])"
    by (simp add: updateName_def returnM_def sample_defs)
  have b: "validateVCLs service0_vcl = None \<and> needsChange service0_vcl \<and>
      updateName accepting service0_vcl [] = (Inr (), [])"
    by (simp add: validateVCLs_def needsChange_def updateName_def HasChangeSet_def returnM_def
        sample_defs vcl_A_def vcl_B_def)
  have c: "active_version service3_vcl \<noteq> 0" "active_version service0_vcl = 0"
    "conn_error accepting [] (CloneVersion (ID service3_vcl) (active_version service3_vcl)) = None"
    "conn_error unclonable [] (CloneVersion (ID service3_vcl) (active_version service3_vcl))
      = Some ''clone failed''"
    by (simp_all add: sample_defs)
  show ?thesis
    using working_version [of service3_vcl accepting "[]" _ "[]"]
      working_version [of service3_vcl unclonable "[]" "''clone failed''" "[]"]
      working_version [of service0_vcl accepting "[]" _ "[]"]
      a u b c
    by (simp add: sample_conn)
qed

text \<open>
  C5. When the \<open>ValidateVersion\<close> call of a run returns without error and reports the
  version invalid, the function returns the error that carries the backend's message, the
  validation is the last event, no \<open>ActivateVersion\<close> call is issued, and the resource
  data (with its \<open>active_version\<close>) is as before. The resource data that the function hands
  to the read function differs from the original only by \<open>active_version\<close>, and only when
  the last event is a successful \<open>ActivateVersion\<close> call for that version.
\<close>

theorem invalid_version_not_activated:
  "(snd (snd (resourceServiceV1Update ext d)) = p @ ValidateVersion s v # q \<and>
    conn_error ext p (ValidateVersion s v) = None \<and> \<not> fst (validate_result ext p) \<longrightarrow>
      resourceServiceV1Update ext d
        = (Some (InvalidConfiguration (ID d) (snd (validate_result ext p))), d,
           p @ [ValidateVersion s v]) \<and>
      (\<forall>s' v'. ActivateVersion s' v' \<notin> set (snd (snd (resourceServiceV1Update ext d))))) \<and>
   (updateBody ext d [] = (Inr d', h) \<longrightarrow>
      d' = d \<or>
      (\<exists>p' v'. d' = d\<lparr>active_version := v'\<rparr> \<and> h = p' @ [ActivateVersion (ID d) v'] \<and>
         conn_error ext p' (ActivateVersion (ID d) v') = None))"
proof (rule conjI; rule impI)
  assume "snd (snd (resourceServiceV1Update ext d)) = p @ ValidateVersion s v # q \<and>
    conn_error ext p (ValidateVersion s v) = None \<and> \<not> fst (validate_result ext p)"
  then have tr: "snd (snd (resourceServiceV1Update ext d)) = p @ ValidateVersion s v # q"
    and ok: "conn_error ext p (ValidateVersion s v) = None"
    and inv: "\<not> fst (validate_result ext p)"
    by simp_all
  have vcl: "validateVCLs d = None"
    using tr by (cases "validateVCLs d") (simp_all add: resourceServiceV1Update_def)
  have none: False if "updateBody ext d [] = (r, h')" "list_all (\<lambda>e. stage e < 32) h'" for r h'
    using update_trace [OF vcl that(1)] that(2) tr by (auto simp: list_all_iff)
  show "resourceServiceV1Update ext d
        = (Some (InvalidConfiguration (ID d) (snd (validate_result ext p))), d,
           p @ [ValidateVersion s v]) \<and>
      (\<forall>s' v'. ActivateVersion s' v' \<notin> set (snd (snd (resourceServiceV1Update ext d))))"
  proof (cases ext d rule: updateBody_cases)
    case (rename_failed e h0)
    then show ?thesis using none updateName_early by blast
  next
    case (unchanged h0)
    then show ?thesis using none updateName_early by blast
  next
    case (clone_failed h0 e h1)
    then show ?thesis using none updateName_early latestVersion_early by blast
  next
    case (update_failed h0 v0 h1 e h2)
    then show ?thesis
      using none updateName_early latestVersion_early updateVersion_early by blast
  next
    case (validate_failed h0 v0 h1 h2 e h3)
    then have early: "list_all (\<lambda>e. stage e < 32) h2"
      using updateName_early latestVersion_early updateVersion_early by blast
    have h3: "h3 = h2 @ [ValidateVersion (ID d) v0]"
      using validate_failed(5) by (rule validateVersion_trace)
    have "p @ ValidateVersion s v # q = h2 @ [ValidateVersion (ID d) v0]"
      using update_trace [OF vcl validate_failed(6)] tr h3 by simp
    moreover have "ValidateVersion s v \<notin> set h2"
      using early by (auto simp: list_all_iff)
    ultimately have eq: "p = h2" "q = []" "s = ID d" "v = v0"
      using snoc_split by fastforce+
    have "e = InvalidConfiguration (ID d) (snd (validate_result ext p))"
      using validate_failed(5) ok inv unfolding eq by (simp add: validateVersion_eq)
    moreover have "ActivateVersion s' v' \<notin> set h3" for s' v'
      using early unfolding h3 by (auto simp: list_all_iff)
    ultimately show ?thesis
      using update_error [OF vcl validate_failed(6)] h3 eq by simp
  next
    case (activate_failed h0 v0 h1 h2 h3 e h4)
    then have early: "list_all (\<lambda>e. stage e < 32) h2"
      using updateName_early latestVersion_early updateVersion_early by blast
    have h4: "h4 = h2 @ [ValidateVersion (ID d) v0, ActivateVersion (ID d) v0]"
      using activate_failed(5,6) by (auto dest!: validateVersion_trace activateVersion_trace)
    have "p @ ValidateVersion s v # q = h2 @ [ValidateVersion (ID d) v0, ActivateVersion (ID d) v0]"
      using update_trace [OF vcl activate_failed(7)] tr h4 by simp
    moreover have "ValidateVersion s v \<notin> set h2"
      using early by (auto simp: list_all_iff)
    ultimately have eq: "p = h2" "s = ID d" "v = v0"
      using snoc2_split by fastforce+
    with activate_failed(5) ok inv show ?thesis
      by (simp add: validateVersion_eq)
  next
    case (activated h0 v0 h1 h2 h3 h4)
    then have early: "list_all (\<lambda>e. stage e < 32) h2"
      using updateName_early latestVersion_early updateVersion_early by blast
    have h4: "h4 = h2 @ [ValidateVersion (ID d) v0, ActivateVersion (ID d) v0]"
      using activated(5,6) by (auto dest!: validateVersion_trace activateVersion_trace)
    have "p @ ValidateVersion s v # q = h2 @ [ValidateVersion (ID d) v0, ActivateVersion (ID d) v0]"
      using update_trace [OF vcl activated(7)] tr h4 by simp
    moreover have "ValidateVersion s v \<notin> set h2"
      using early by (auto simp: list_all_iff)
    ultimately have eq: "p = h2" "s = ID d" "v = v0"
      using snoc2_split by fastforce+
    with activated(5) ok inv show ?thesis
      by (simp add: validateVersion_eq)
  qed
next
  assume run: "updateBody ext d [] = (Inr d', h)"
  show "d' = d \<or>
      (\<exists>p' v'. d' = d\<lparr>active_version := v'\<rparr> \<and> h = p' @ [ActivateVersion (ID d) v'] \<and>
         conn_error ext p' (ActivateVersion (ID d) v') = None)"
  proof (cases ext d rule: updateBody_cases)
    case (unchanged h0)
    with run show ?thesis by simp
  next
    case (activated h0 v0 h1 h2 h3 h4)
    from activated(6) have "h4 = h3 @ [ActivateVersion (ID d) v0]"
      and "conn_error ext h3 (ActivateVersion (ID d) v0) = None"
      by (auto simp: activateVersion_eq split: option.splits)
    with activated(7) run show ?thesis by auto
  qed (use run in simp_all)
qed


theorem invalid_version_not_activated_witness:
  "snd (snd (resourceServiceV1Update rejecting service3_vcl)) =
     [CloneVersion (ID service3) 3, Sleep 7, Create (ID service3) 4 (VCLItem vcl_B)]
     @ ValidateVersion (ID service3) 4 # [] \<and>
   conn_error rejecting
     [CloneVersion (ID service3) 3, Sleep 7, Create (ID service3) 4 (VCLItem vcl_B)]
     (ValidateVersion (ID service3) 4) = None \<and>
   \<not> fst (validate_result rejecting
     [CloneVersion (ID service3) 3, Sleep 7, Create (ID service3) 4 (VCLItem vcl_B)]) \<and>
   resourceServiceV1Update rejecting service3_vcl =
     (Some (InvalidConfiguration (ID service3) ''Syntax error''), service3_vcl,
      [CloneVersion (ID service3) 3, Sleep 7, Create (ID service3) 4 (VCLItem vcl_B),
       ValidateVersion (ID service3) 4]) \<and>
   ActivateVersion (ID service3) 4
     \<notin> set (snd (snd (resourceServiceV1Update rejecting service3_vcl))) \<and>
   updateBody accepting service3_vcl [] =
     (Inr (service3_vcl\<lparr>active_version := 4\<rparr>),
      [CloneVersion (ID service3) 3, Sleep 7, Create (ID service3) 4 (VCLItem vcl_B),
       ValidateVersion (ID service3) 4] @ [ActivateVersion (ID service3) 4]) \<and>
   conn_error accepting
     [CloneVersion (ID service3) 3, Sleep 7, Create (ID service3) 4 (VCLItem vcl_B),
      ValidateVersion (ID service3) 4] (ActivateVersion (ID service3) 4) = None"
  using invalid_version_not_activated [of rejecting service3_vcl
      "[CloneVersion (ID service3) 3, Sleep 7, Create (ID service3) 4 (VCLItem vcl_B)]"
      "ID service3" 4 "[]" "service3_vcl" "[]"]
    invalid_version_not_activated [of accepting service3_vcl "[]" "ID service3" 4 "[]"
      "service3_vcl\<lparr>active_version := 4\<rparr>"
      "[CloneVersion (ID service3) 3, Sleep 7, Create (ID service3) 4 (VCLItem vcl_B),
        ValidateVersion (ID service3) 4, ActivateVersion (ID service3) 4]"]
  by (simp add: run_vcl_rejecting body_vcl sample_conn)

text \<open>
  C9. In every run, the event right after the successful creation of a VCL with
  \<open>main = true\<close> is the \<open>ActivateVCL\<close> call for that VCL, on the same service and
  version. The event after the creation of a VCL that is not main is never an
  \<open>ActivateVCL\<close> call. Conversely every \<open>ActivateVCL\<close> call comes right after the
  creation of a main VCL of that name.
\<close>

theorem main_vcl_activated:
  "(snd (snd (resourceServiceV1Update ext d)) = p @ Create s v (VCLItem df) # q \<longrightarrow>
      (vcl_main df \<and> conn_error ext p (Create s v (VCLItem df)) = None \<longrightarrow>
         (\<exists>q'. q = ActivateVCL s v (vcl_name df) # q')) \<and>
      (\<not> vcl_main df \<longrightarrow> (\<forall>s' v' n q'. q \<noteq> ActivateVCL s' v' n # q'))) \<and>
   (snd (snd (resourceServiceV1Update ext d)) = p @ ActivateVCL s v n # q \<longrightarrow>
      (\<exists>p' df'. p = p' @ [Create s v (VCLItem df')] \<and> vcl_main df' \<and> vcl_name df' = n))"
proof (rule conjI; rule impI)
  assume tr: "snd (snd (resourceServiceV1Update ext d)) = p @ Create s v (VCLItem df) # q"
  have st: "vcl_stopped ext (p @ Create s v (VCLItem df) # q)"
    using update_vcl_stopped [of ext d] by (simp only: tr)
  show "(vcl_main df \<and> conn_error ext p (Create s v (VCLItem df)) = None \<longrightarrow>
         (\<exists>q'. q = ActivateVCL s v (vcl_name df) # q')) \<and>
      (\<not> vcl_main df \<longrightarrow> (\<forall>s' v' n q'. q \<noteq> ActivateVCL s' v' n # q'))"
  proof (cases q)
    case Nil
    with st show ?thesis
      by (auto simp: vcl_stopped_def butlast_append)
  next
    case (Cons b q')
    with st have "vcl_next (Create s v (VCLItem df)) b"
      by (auto simp: vcl_stopped_def vcl_wf_def dest: successively_mid)
    with Cons show ?thesis by auto
  qed
next
  assume tr: "snd (snd (resourceServiceV1Update ext d)) = p @ ActivateVCL s v n # q"
  have st: "vcl_stopped ext (p @ ActivateVCL s v n # q)"
    using update_vcl_stopped [of ext d] by (simp only: tr)
  show "\<exists>p' df'. p = p' @ [Create s v (VCLItem df')] \<and> vcl_main df' \<and> vcl_name df' = n"
  proof (cases p rule: rev_cases)
    case Nil
    with st show ?thesis
      by (simp add: vcl_stopped_def vcl_wf_def)
  next
    case (snoc p' a)
    with st have "successively vcl_next (p' @ a # ActivateVCL s v n # q)"
      by (simp add: vcl_stopped_def vcl_wf_def)
    then have "vcl_next a (ActivateVCL s v n)"
      by (rule successively_mid)
    with snoc show ?thesis
      by (auto dest: vcl_next_activate)
  qed
qed

theorem main_vcl_activated_witness:
  "snd (snd (resourceServiceV1Update accepting service0_vcl)) =
     [Create (ID service3) 1 (DomainItem domain_www)] @ Create (ID service3) 1 (VCLItem vcl_A)
       # [ActivateVCL (ID service3) 1 ''A'', ValidateVersion (ID service3) 1,
          ActivateVersion (ID service3) 1] \<and>
   vcl_main vcl_A \<and> vcl_name vcl_A = ''A'' \<and>
   conn_error accepting [Create (ID service3) 1 (DomainItem domain_www)]
     (Create (ID service3) 1 (VCLItem vcl_A)) = None \<and>
   snd (snd (resourceServiceV1Update accepting service0_vcl)) =
     [Create (ID service3) 1 (DomainItem domain_www), Create (ID service3) 1 (VCLItem vcl_A)]
       @ ActivateVCL (ID service3) 1 ''A''
       # [ValidateVersion (ID service3) 1, ActivateVersion (ID service3) 1] \<and>
   snd (snd (resourceServiceV1Update accepting service3_vcl)) =
     [CloneVersion (ID service3) 3, Sleep 7] @ Create (ID service3) 4 (VCLItem vcl_B)
       # [ValidateVersion (ID service3) 4, ActivateVersion (ID service3) 4] \<and>
   \<not> vcl_main vcl_B \<and>
   [ValidateVersion (ID service3) 4, ActivateVersion (ID service3) 4]
     \<noteq> ActivateVCL (ID service3) 4 ''B'' # [ActivateVersion (ID service3) 4]"
  using main_vcl_activated [of accepting service0_vcl
      "[Create (ID service3) 1 (DomainItem domain_www)]" "ID service3" 1 vcl_A
      "[ActivateVCL (ID service3) 1 ''A'', ValidateVersion (ID service3) 1,
        ActivateVersion (ID service3) 1]" "''A''"]
    main_vcl_activated [of accepting service0_vcl
      "[Create (ID service3) 1 (DomainItem domain_www), Create (ID service3) 1 (VCLItem vcl_A)]"
      "ID service3" 1 vcl_A
      "[ValidateVersion (ID service3) 1, ActivateVersion (ID service3) 1]" "''A''"]
    main_vcl_activated [of accepting service3_vcl "[CloneVersion (ID service3) 3, Sleep 7]"
      "ID service3" 4 vcl_B "[ValidateVersion (ID service3) 4, ActivateVersion (ID service3) 4]"
      "''B''"]
  by (simp add: run_new_service run_vcl sample_conn vcl_A_def vcl_B_def)







end
